theory Spec2Isabelle
  imports Complex_Main "HOL-Library.Sublist"
begin

section \<open>Quick view widget (assets/custom.js): data model\<close>

text \<open>
  Strings are byte strings: well-formed Unicode text in UTF-8. A JavaScript string with
  an unpaired surrogate has no counterpart here.

  The value of a variant's \<^verbatim>\<open>optionN\<close> property as the script reads it: absent
  (\<^verbatim>\<open>undefined\<close>), JSON \<^verbatim>\<open>null\<close>, or a string. The script writes such values
  to the selection object as well.
\<close>

datatype slot = Undefined | Null | Str string

text \<open>JavaScript truthiness of a slot: only a non-empty string is truthy.\<close>

fun truthy :: "slot \<Rightarrow> bool" where
  "truthy (Str s) = (s \<noteq> [])"
| "truthy _ = False"

text \<open>
  A variant and a product as \<^verbatim>\<open>res.json()\<close> delivers them. The identifier and the
  price are integer-valued numbers.
\<close>

record variant =
  v_id :: int
  v_title :: slot
  v_price :: int
  v_available :: bool
  option1 :: slot
  option2 :: slot
  option3 :: slot

record product =
  p_title :: string
  options :: "string list"
  variants :: "variant list"

text \<open>\<^verbatim>\<open>v['option' + n]\<close>: a variant has the three properties option1..option3 only.\<close>

definition option_prop :: "variant \<Rightarrow> nat \<Rightarrow> slot" where
  "option_prop v n =
     (if n = 1 then option1 v else if n = 2 then option2 v
      else if n = 3 then option3 v else Undefined)"

section \<open>The host\<close>

text \<open>
  A JavaScript number: not-a-number, a finite value, or an infinity (\<^const>\<open>True\<close> for
  the positive one). A finite number is given by its exact value; which values are
  numbers is the host's matter.
\<close>

datatype jsnum = NaN | Fin rat | Infinity bool

datatype exn = TypeError | RangeError | SyntaxError | Error string

text \<open>
  What the script takes from its host, the browser and its engine:
  \<^item> the value of \<^verbatim>\<open>window.Shopify && Shopify.currency && Shopify.currency.active\<close>
    (\<^const>\<open>None\<close> when a link of the chain is missing);
  \<^item> the locale formatter
    \<^verbatim>\<open>new Intl.NumberFormat(undefined, {style: 'currency', currency}).format(x)\<close>,
    which may throw;
  \<^item> \<^verbatim>\<open>Number::toString\<close>, which the script reaches for an identifier beyond
    2^53 and for an amount from 10^21 on;
  \<^item> the Number value of a real number, here of the quotient \<^verbatim>\<open>cents / 100\<close>
    (IEEE 754 rounding);
  \<^item> \<^verbatim>\<open>Number(s)\<close> for a string \<^verbatim>\<open>s\<close>;
  \<^item> \<^verbatim>\<open>String.prototype.toLowerCase\<close>;
  \<^item> the names of the properties that other scripts have added to
    \<^verbatim>\<open>Object.prototype\<close>.
\<close>

record platform =
  shopify_currency_active :: "string option"
  intl_format :: "string option \<Rightarrow> jsnum \<Rightarrow> exn + string"
  number_toString :: "rat \<Rightarrow> string"
  number_value :: "rat \<Rightarrow> jsnum"
  Number_of_string :: "string \<Rightarrow> jsnum"
  toLowerCase :: "string \<Rightarrow> string"
  added_to_prototype :: "string \<Rightarrow> bool"

section \<open>The selection object\<close>

text \<open>The names of the properties of \<^verbatim>\<open>Object.prototype\<close> in every browser.\<close>

definition standard_prototype_names :: "string list" where
  "standard_prototype_names =
     [''constructor'', ''__defineGetter__'', ''__defineSetter__'', ''hasOwnProperty'',
      ''__lookupGetter__'', ''__lookupSetter__'', ''isPrototypeOf'',
      ''propertyIsEnumerable'', ''toString'', ''valueOf'', ''__proto__'',
      ''toLocaleString'']"

definition prototype_has :: "platform \<Rightarrow> string \<Rightarrow> bool" where
  "prototype_has pf name = (name \<in> set standard_prototype_names \<or> added_to_prototype pf name)"

text \<open>
  An object used as a dictionary, as \<^verbatim>\<open>const selections = {}\<close> is: its own
  properties, and whether its prototype is still \<^verbatim>\<open>Object.prototype\<close> (an
  assignment of \<^verbatim>\<open>null\<close> to \<^verbatim>\<open>__proto__\<close> removes it).
\<close>

record sel_object =
  own_props :: "string \<Rightarrow> slot option"
  has_prototype :: bool

text \<open>The object that \<^verbatim>\<open>{}\<close> creates.\<close>

definition empty_object :: sel_object where
  "empty_object = \<lparr>own_props = (\<lambda>_. None), has_prototype = True\<rparr>"

text \<open>
  What \<^verbatim>\<open>selections[key]\<close> reads: the value of an own property, or else a member
  of \<^verbatim>\<open>Object.prototype\<close>, or else \<^verbatim>\<open>undefined\<close>. The members of
  \<^verbatim>\<open>Object.prototype\<close> are functions and objects, never strings.
\<close>

datatype looked_up = Value slot | Inherited

definition get_property :: "platform \<Rightarrow> sel_object \<Rightarrow> string \<Rightarrow> looked_up" where
  "get_property pf obj key =
     (case own_props obj key of
        Some v \<Rightarrow> Value v
      | None \<Rightarrow> if has_prototype obj \<and> prototype_has pf key then Inherited
                else Value Undefined)"

text \<open>
  What \<^verbatim>\<open>selections[key] = val\<close> does. An own property is overwritten. Otherwise the
  key \<^verbatim>\<open>__proto__\<close> reaches the setter of \<^verbatim>\<open>Object.prototype\<close>, which removes the
  prototype for \<^verbatim>\<open>null\<close> and ignores a string and \<^verbatim>\<open>undefined\<close>; any other key
  becomes an own property (the members that the object inherits are writable).
\<close>

definition set_property :: "sel_object \<Rightarrow> string \<Rightarrow> slot \<Rightarrow> sel_object" where
  "set_property obj key val =
     (if own_props obj key = None \<and> has_prototype obj \<and> key = ''__proto__''
      then (if val = Null then obj\<lparr>has_prototype := False\<rparr> else obj)
      else obj\<lparr>own_props := (own_props obj)(key := Some val)\<rparr>)"

text \<open>Truthiness of what was read, and \<^verbatim>\<open>got === want\<close> for a slot \<^verbatim>\<open>got\<close>.\<close>

fun looked_up_truthy :: "looked_up \<Rightarrow> bool" where
  "looked_up_truthy (Value v) = truthy v"
| "looked_up_truthy Inherited = True"

fun strictly_equal :: "slot \<Rightarrow> looked_up \<Rightarrow> bool" where
  "strictly_equal got (Value want) = (got = want)"
| "strictly_equal got Inherited = False"

section \<open>Variant resolver\<close>

text \<open>\<^verbatim>\<open>Array.prototype.every\<close> with the (element, index) callback.\<close>

fun every_from :: "nat \<Rightarrow> ('a \<Rightarrow> nat \<Rightarrow> bool) \<Rightarrow> 'a list \<Rightarrow> bool" where
  "every_from i f [] = True"
| "every_from i f (x # xs) = (f x i \<and> every_from (Suc i) f xs)"

definition every :: "('a \<Rightarrow> nat \<Rightarrow> bool) \<Rightarrow> 'a list \<Rightarrow> bool" where
  "every f xs = every_from 0 f xs"

text \<open>
  \<^verbatim>\<open>findVariant(product, selections)\<close>, lines 70-79. \<^verbatim>\<open>Array.prototype.find\<close> is
  \<^const>\<open>List.find\<close>, with \<^verbatim>\<open>undefined\<close> as \<^const>\<open>None\<close>.
\<close>

definition findVariant :: "platform \<Rightarrow> product \<Rightarrow> sel_object \<Rightarrow> variant option" where
  "findVariant pf p sel =
     List.find (\<lambda>v. every (\<lambda>optName idx.
        (let want = get_property pf sel optName in
         if \<not> looked_up_truthy want then True
         else (let got = option_prop v (idx + 1) in strictly_equal got want))) (options p))
       (variants p)"

text \<open>
  The specification's matching relation, on the entries of the selection map, which
  are the own properties of the object: every option name of the product that has a
  non-empty entry is matched by the variant's positional value; an option with no entry
  matches any value.
\<close>

definition matches_selection :: "product \<Rightarrow> sel_object \<Rightarrow> variant \<Rightarrow> bool" where
  "matches_selection p sel v =
     (\<forall>idx < length (options p).
        (case own_props sel (options p ! idx) of
           None \<Rightarrow> True
         | Some want \<Rightarrow> truthy want \<longrightarrow> option_prop v (idx + 1) = want))"

section \<open>JavaScript strings and numbers\<close>

text \<open>Truthiness of a number: \<^verbatim>\<open>NaN\<close> and zero are falsy.\<close>

fun num_truthy :: "jsnum \<Rightarrow> bool" where
  "num_truthy NaN = False"
| "num_truthy (Fin r) = (r \<noteq> 0)"
| "num_truthy (Infinity _) = True"

text \<open>Strict equality \<^verbatim>\<open>===\<close> on numbers: \<^verbatim>\<open>NaN\<close> equals nothing.\<close>

fun num_strict_eq :: "jsnum \<Rightarrow> jsnum \<Rightarrow> bool" where
  "num_strict_eq NaN _ = False"
| "num_strict_eq _ NaN = False"
| "num_strict_eq a b = (a = b)"

text \<open>
  \<^verbatim>\<open>String(n)\<close> for an integer-valued number \<^verbatim>\<open>n\<close>: its decimal digits up to 2^53
  in magnitude, and what \<^verbatim>\<open>Number::toString\<close> makes of it beyond.
\<close>

definition digit_char :: "nat \<Rightarrow> char" where
  "digit_char n = ''0123456789'' ! n"

fun dec_digits :: "nat \<Rightarrow> string" where
  "dec_digits n =
     (if n < 10 then [digit_char n] else dec_digits (n div 10) @ [digit_char (n mod 10)])"

declare dec_digits.simps [simp del]

definition String_of_int :: "int \<Rightarrow> string" where
  "String_of_int i = (if i < 0 then CHR ''-'' # dec_digits (nat (- i)) else dec_digits (nat i))"

definition String_of_id :: "platform \<Rightarrow> int \<Rightarrow> string" where
  "String_of_id pf i =
     (if \<bar>i\<bar> \<le> 2 ^ 53 then String_of_int i else number_toString pf (of_int i))"

text \<open>\<^verbatim>\<open>String.prototype.includes\<close>: the needle occurs at some position.\<close>

fun includes_str :: "string \<Rightarrow> string \<Rightarrow> bool" where
  "includes_str [] t = (t = [])"
| "includes_str (c # cs) t = (prefix t (c # cs) \<or> includes_str cs t)"

text \<open>
  The string that an attribute selector \<^verbatim>\<open>[data-val="..."]\<close> compares with, when
  the selector text was made by \<^verbatim>\<open>CSS.escape\<close>: the escapes read back as the
  characters they stand for, except that \<^verbatim>\<open>CSS.escape\<close> writes U+FFFD for U+0000.
\<close>

definition css_value :: "string \<Rightarrow> string" where
  "css_value s =
     concat (map (\<lambda>c. if c = CHR 0x00 then [CHR 0xEF, CHR 0xBF, CHR 0xBD] else [c]) s)"

section \<open>Money formatter\<close>

text \<open>
  \<^verbatim>\<open>Number.prototype.toFixed(f)\<close> for a finite value below 10^21: the integer
  \<open>n\<close> nearest to \<open>x * 10^f\<close> (the larger one on a tie), written with at least
  \<open>f + 1\<close> digits and a point before the last \<open>f\<close>.
\<close>

definition fixed_digits :: "rat \<Rightarrow> nat \<Rightarrow> string" where
  "fixed_digits x f =
     (let n = nat \<lfloor>x * 10 ^ f + 1 / 2\<rfloor>;
          m = dec_digits n;
          m = (if f \<noteq> 0 \<and> length m \<le> f then replicate (f + 1 - length m) CHR ''0'' @ m else m);
          k = length m
      in if f \<noteq> 0 then take (k - f) m @ ''.'' @ drop (k - f) m else m)"

definition toFixed :: "platform \<Rightarrow> jsnum \<Rightarrow> int \<Rightarrow> exn + string" where
  "toFixed pf x fractionDigits =
     (if fractionDigits < 0 \<or> 100 < fractionDigits then Inl RangeError
      else (case x of
              NaN \<Rightarrow> Inr ''NaN''
            | Infinity b \<Rightarrow> Inr (if b then ''Infinity'' else ''-Infinity'')
            | Fin r \<Rightarrow>
                if 10 ^ 21 \<le> \<bar>r\<bar> then Inr (number_toString pf r)
                else Inr ((if r < 0 then ''-'' else []) @ fixed_digits \<bar>r\<bar> (nat fractionDigits))))"

text \<open>
  \<^verbatim>\<open>formatMoney(cents)\<close>, lines 13-20: the \<^verbatim>\<open>catch\<close> runs on any exception of
  the \<^verbatim>\<open>try\<close>.
\<close>

definition active_currency :: "platform \<Rightarrow> string option" where
  "active_currency pf =
     (case shopify_currency_active pf of
        None \<Rightarrow> None
      | Some c \<Rightarrow> if c = [] then None else Some c)"

text \<open>The number \<^verbatim>\<open>cents / 100\<close>.\<close>

definition hundredth :: "platform \<Rightarrow> int \<Rightarrow> jsnum" where
  "hundredth pf cents = number_value pf (of_int cents / 100)"

definition formatMoney :: "platform \<Rightarrow> int \<Rightarrow> exn + string" where
  "formatMoney pf cents =
     (let currency = active_currency pf
      in case intl_format pf currency (hundredth pf cents) of
           Inr s \<Rightarrow> Inr s
         | Inl e \<Rightarrow> toFixed pf (hundredth pf cents) 2)"

text \<open>
  The specification's fallback: the amount in minor units divided by 100, exactly, and
  written with two decimals.
\<close>

definition two_decimals :: "int \<Rightarrow> string" where
  "two_decimals cents =
     (if cents < 0 then ''-'' else []) @ dec_digits (nat \<bar>cents\<bar> div 100) @ ''.''
       @ [digit_char (nat \<bar>cents\<bar> div 10 mod 10), digit_char (nat \<bar>cents\<bar> mod 10)]"

section \<open>Modal controller\<close>

text \<open>
  An option button of the picker: its \<^verbatim>\<open>data-opt\<close> and \<^verbatim>\<open>data-val\<close> attributes,
  the option group (\<^verbatim>\<open>optionsRow\<close>) that holds it, and the value \<^verbatim>\<open>val\<close> its click
  handler has captured.
\<close>

record button =
  data_opt :: string
  data_val :: string
  b_group :: nat
  b_val :: slot

text \<open>
  A trigger element \<^verbatim>\<open>[data-quick]\<close>: its \<^verbatim>\<open>data-handle\<close> attribute, the
  \<^verbatim>\<open>data-upsell-variant\<close> attribute of its closest ancestor grid section (if it has
  such an ancestor), and that of the first grid section of the document (if any).
  \<^verbatim>\<open>getAttribute\<close> gives \<^verbatim>\<open>null\<close>, here \<^const>\<open>None\<close>, for an absent attribute.
\<close>

record quick =
  data_handle :: "string option"
  closest_section :: "string option option"
  document_section :: "string option option"

text \<open>
  The parts of the modal node that the handlers read and write: the \<^verbatim>\<open>open\<close> class,
  \<^verbatim>\<open>dataset.variantId\<close>, the texts of the title, price and message elements, the
  value of the quantity input, the \<^verbatim>\<open>disabled\<close> flag of the add control, the option
  buttons in document order with one \<^verbatim>\<open>aria-pressed\<close> flag for each, the selection
  object and the product that the button handlers have captured, and what the add
  handler has captured. The description and the image are written once per product
  and never read, and are left out.
\<close>

record modal =
  is_open :: bool
  dataset_variantId :: "string option"
  title_text :: string
  price_text :: string
  msg_text :: string
  qty_value :: string
  add_disabled :: bool
  buttons :: "button list"
  aria_pressed :: "bool list"
  selections :: sel_object
  picker_product :: "product option"
  add_handler :: "(product \<times> quick) option"

record page =
  quickview :: "modal option"
  no_scroll :: bool

definition new_modal :: modal where
  "new_modal =
     \<lparr>is_open = False, dataset_variantId = None, title_text = [], price_text = [], msg_text = [],
      qty_value = ''1'', add_disabled = False, buttons = [], aria_pressed = [],
      selections = empty_object, picker_product = None, add_handler = None\<rparr>"

definition initial_page :: page where
  "initial_page = \<lparr>quickview = None, no_scroll = False\<rparr>"

text \<open>\<^verbatim>\<open>ensureModal()\<close>, lines 28-57.\<close>

definition ensureModal :: "page \<Rightarrow> modal" where
  "ensureModal pg = (case quickview pg of Some m \<Rightarrow> m | None \<Rightarrow> new_modal)"

text \<open>\<^verbatim>\<open>openModal\<close> and \<^verbatim>\<open>closeModal\<close>, lines 60-67, on the page that holds the modal.\<close>

definition openModal :: "modal \<Rightarrow> page \<Rightarrow> page" where
  "openModal m pg = pg\<lparr>quickview := Some (m\<lparr>is_open := True\<rparr>), no_scroll := True\<rparr>"

definition closeModal :: "modal \<Rightarrow> page \<Rightarrow> page" where
  "closeModal m pg = pg\<lparr>quickview := Some (m\<lparr>is_open := False\<rparr>), no_scroll := False\<rparr>"

section \<open>Picker builder\<close>

text \<open>\<^verbatim>\<open>String(v)\<close> of a slot, as \<^verbatim>\<open>setAttribute\<close> and \<^verbatim>\<open>CSS.escape\<close> convert it.\<close>

fun String_of_slot :: "slot \<Rightarrow> string" where
  "String_of_slot Undefined = ''undefined''"
| "String_of_slot Null = ''null''"
| "String_of_slot (Str s) = s"

text \<open>\<^verbatim>\<open>Array.from(new Set(xs))\<close>: the distinct values in order of first occurrence.\<close>

definition set_values :: "'a list \<Rightarrow> 'a list" where
  "set_values xs = fold (\<lambda>x acc. if x \<in> set acc then acc else acc @ [x]) xs []"

text \<open>The buttons of one option group, lines 88-125.\<close>

definition group_buttons :: "product \<Rightarrow> string \<Rightarrow> nat \<Rightarrow> button list" where
  "group_buttons p optName optIndex =
     (let idx = optIndex + 1;
          vals = set_values (map (\<lambda>v. option_prop v idx) (variants p))
      in map (\<lambda>val. \<lparr>data_opt = optName, data_val = String_of_slot val,
                      b_group = optIndex, b_val = val\<rparr>) vals)"

fun all_buttons :: "product \<Rightarrow> nat \<Rightarrow> string list \<Rightarrow> button list" where
  "all_buttons p optIndex [] = []"
| "all_buttons p optIndex (optName # rest) =
     group_buttons p optName optIndex @ all_buttons p (Suc optIndex) rest"

text \<open>The separator \<^verbatim>\<open>' - '\<close> of the title, whose middle character is U+2014.\<close>

definition dash_separator :: string where
  "dash_separator = [CHR 0x20, CHR 0xE2, CHR 0x80, CHR 0x94, CHR 0x20]"

text \<open>
  The click handler of the \<open>k\<close>-th option button (in document order), lines 111-122.
  An exception of \<^verbatim>\<open>formatMoney\<close> would end the handler where it is thrown.
\<close>

definition click_opt :: "platform \<Rightarrow> product \<Rightarrow> nat \<Rightarrow> modal \<Rightarrow> modal" where
  "click_opt pf p k m =
     (if length (buttons m) \<le> k then m
      else
        (let b = buttons m ! k;
             m1 = m\<lparr>aria_pressed :=
                       map (\<lambda>j. if b_group (buttons m ! j) = b_group b then j = k
                                 else aria_pressed m ! j) [0 ..< length (buttons m)],
                    selections := set_property (selections m) (data_opt b) (b_val b)\<rparr>
         in case findVariant pf p (selections m1) of
              None \<Rightarrow> m1
            | Some variant \<Rightarrow>
                (let m2 = m1\<lparr>dataset_variantId := Some (String_of_id pf (v_id variant))\<rparr>
                 in case formatMoney pf (v_price variant) of
                      Inl e \<Rightarrow> m2
                    | Inr money \<Rightarrow>
                        m2\<lparr>price_text := money,
                           title_text := p_title p @
                             (if truthy (v_title variant)
                              then dash_separator @ String_of_slot (v_title variant)
                              else [])\<rparr>)))"

text \<open>
  \<^verbatim>\<open>wrap.querySelector\<close> for the selector of line 138, which holds
  \<^verbatim>\<open>CSS.escape(optName)\<close> and \<^verbatim>\<open>CSS.escape(val)\<close>: the index of the first
  button, in document order, with both attributes.
\<close>

fun first_index :: "('a \<Rightarrow> bool) \<Rightarrow> 'a list \<Rightarrow> nat option" where
  "first_index P [] = None"
| "first_index P (x # xs) = (if P x then Some 0 else map_option Suc (first_index P xs))"

definition querySelector_opt :: "button list \<Rightarrow> string \<Rightarrow> string \<Rightarrow> nat option" where
  "querySelector_opt bs optName val =
     first_index (\<lambda>b. data_opt b = css_value optName \<and> data_val b = css_value val) bs"

text \<open>The \<^verbatim>\<open>forEach\<close> of lines 135-140, from option index \<open>idx\<close> on.\<close>

fun preselect :: "platform \<Rightarrow> product \<Rightarrow> variant \<Rightarrow> nat \<Rightarrow> string list \<Rightarrow> modal \<Rightarrow> modal" where
  "preselect pf p initialVariant idx [] m = m"
| "preselect pf p initialVariant idx (optName # rest) m =
     (let val = option_prop initialVariant (idx + 1);
          m1 = m\<lparr>selections := set_property (selections m) optName val\<rparr>;
          m2 = (case querySelector_opt (buttons m1) optName (String_of_slot val) of
                  None \<Rightarrow> m1
                | Some k \<Rightarrow> click_opt pf p k m1)
      in preselect pf p initialVariant (Suc idx) rest m2)"

text \<open>\<^verbatim>\<open>product.variants.find(v => v.available) || product.variants[0]\<close>, line 132.\<close>

definition initialVariant :: "product \<Rightarrow> variant option" where
  "initialVariant p =
     (case List.find v_available (variants p) of
        Some v \<Rightarrow> Some v
      | None \<Rightarrow> (case variants p of [] \<Rightarrow> None | v # _ \<Rightarrow> Some v))"

text \<open>The pickers as lines 83-129 leave them: buttons rendered, nothing selected.\<close>

definition render_pickers :: "product \<Rightarrow> modal \<Rightarrow> modal" where
  "render_pickers p m =
     (let bs = all_buttons p 0 (options p)
      in m\<lparr>buttons := bs, aria_pressed := replicate (length bs) False,
           selections := empty_object, picker_product := Some p\<rparr>)"

text \<open>
  \<^verbatim>\<open>buildVariantPickers(modal, product)\<close>, lines 82-146: the modal it leaves, and the
  exception it throws, if any.
\<close>

definition buildVariantPickers :: "platform \<Rightarrow> modal \<Rightarrow> product \<Rightarrow> modal \<times> exn option" where
  "buildVariantPickers pf m p =
     (let m1 = render_pickers p m
      in case initialVariant p of
           None \<Rightarrow> (m1, None)
         | Some iv \<Rightarrow>
             (let m2 = preselect pf p iv 0 (options p) m1;
                  m3 = m2\<lparr>dataset_variantId := Some (String_of_id pf (v_id iv))\<rparr>
              in case formatMoney pf (v_price iv) of
                   Inl e \<Rightarrow> (m3, Some e)
                 | Inr money \<Rightarrow> (m3\<lparr>price_text := money\<rparr>, None)))"

text \<open>
  The shopper clicking, option by option, the button of each group that shows the given
  variant's value: the first button of group \<open>idx\<close> whose value it is.
\<close>

fun manual_clicks :: "platform \<Rightarrow> product \<Rightarrow> variant \<Rightarrow> nat \<Rightarrow> string list \<Rightarrow> modal \<Rightarrow> modal" where
  "manual_clicks pf p v idx [] m = m"
| "manual_clicks pf p v idx (optName # rest) m =
     (let m' = (case first_index (\<lambda>b. b_group b = idx \<and> b_val b = option_prop v (idx + 1))
                       (buttons m) of
                  None \<Rightarrow> m
                | Some k \<Rightarrow> click_opt pf p k m)
      in manual_clicks pf p v (Suc idx) rest m')"

section \<open>Cart gateway\<close>

text \<open>
  How a \<^verbatim>\<open>fetch\<close> settles: the promise rejects (transport failure), the response
  has a non-success status, the body of a success response is not JSON, or it is.
\<close>

datatype 'a response = Rejected | Status_not_ok | Invalid_json | Ok_json 'a

text \<open>An argument of \<^verbatim>\<open>addToCart\<close>: a string read from the page, or a number.\<close>

datatype arg = AStr string | ANum jsnum

fun to_Number :: "platform \<Rightarrow> arg \<Rightarrow> jsnum" where
  "to_Number pf (AStr s) = Number_of_string pf s"
| "to_Number pf (ANum n) = n"

text \<open>\<^verbatim>\<open>JSON.stringify\<close> of a number: a value that is not finite is written \<^verbatim>\<open>null\<close>.\<close>

datatype json_number = Json_null | Json_number rat

fun JSON_number :: "jsnum \<Rightarrow> json_number" where
  "JSON_number (Fin r) = Json_number r"
| "JSON_number _ = Json_null"

record body =
  body_id :: json_number
  body_quantity :: json_number

text \<open>What a handler does to the world outside the modal, in order.\<close>

datatype effect =
    Alert string
  | Fetch_product string
  | Cart_add body
  | Console_error
  | Console_warn
  | Navigate string

text \<open>
  \<^verbatim>\<open>addToCart(variantId, quantity)\<close>, lines 149-158: the POST it issues, and the
  value or exception its promise settles with.
\<close>

definition addToCart ::
  "platform \<Rightarrow> arg \<Rightarrow> arg \<Rightarrow> unit response \<Rightarrow> effect \<times> (exn + unit)" where
  "addToCart pf variantId quantity res =
     (Cart_add \<lparr>body_id = JSON_number (to_Number pf variantId),
                body_quantity = JSON_number (to_Number pf quantity)\<rparr>,
      case res of
        Rejected \<Rightarrow> Inl TypeError
      | Status_not_ok \<Rightarrow> Inl (Error ''Cart add failed'')
      | Invalid_json \<Rightarrow> Inl SyntaxError
      | Ok_json j \<Rightarrow> Inr j)"

section \<open>Upsell rule evaluator\<close>

text \<open>\<^verbatim>\<open>findGridSection(el)\<close>, lines 23-25.\<close>

definition findGridSection :: "quick \<Rightarrow> string option option" where
  "findGridSection el =
     (case closest_section el of Some sec \<Rightarrow> Some sec | None \<Rightarrow> document_section el)"

text \<open>\<^verbatim>\<open>getUpsellVariantIdFromSection(button)\<close>, lines 161-167.\<close>

definition getUpsellVariantIdFromSection :: "platform \<Rightarrow> quick \<Rightarrow> jsnum option" where
  "getUpsellVariantIdFromSection pf button =
     (case findGridSection button of
        None \<Rightarrow> None
      | Some section \<Rightarrow>
          (case section of
             None \<Rightarrow> None
           | Some v \<Rightarrow>
               if v = [] then None
               else if num_truthy (Number_of_string pf v) then Some (Number_of_string pf v)
               else None))"

text \<open>Lines 212-220: the chosen variant and the lower-cased option values.\<close>

definition chosenVariant :: "platform \<Rightarrow> product \<Rightarrow> string \<Rightarrow> variant option" where
  "chosenVariant pf p vid =
     List.find (\<lambda>v. num_strict_eq (Fin (of_int (v_id v))) (Number_of_string pf vid))
       (variants p)"

definition optionValues :: "platform \<Rightarrow> variant option \<Rightarrow> string list" where
  "optionValues pf cv =
     (case cv of
        None \<Rightarrow> []
      | Some v \<Rightarrow>
          concat (map (\<lambda>opt. if truthy opt then [toLowerCase pf (String_of_slot opt)] else [])
                    [option1 v, option2 v, option3 v]))"

definition hasBlack :: "string list \<Rightarrow> bool" where
  "hasBlack vals = list_ex (\<lambda>v. includes_str v ''black'') vals"

definition hasMedium :: "string list \<Rightarrow> bool" where
  "hasMedium vals = list_ex (\<lambda>v. includes_str v ''medium'') vals"

section \<open>Add control\<close>

text \<open>
  The handler \<^verbatim>\<open>addBtn.onclick\<close>, lines 196-239, for the product and trigger it has
  captured; \<open>res1\<close> and \<open>res2\<close> are how the first and the second \<^verbatim>\<open>fetch\<close> settle,
  should they be issued.
\<close>

definition add_onclick ::
  "platform \<Rightarrow> product \<Rightarrow> quick \<Rightarrow> unit response \<Rightarrow> unit response \<Rightarrow> modal
     \<Rightarrow> modal \<times> effect list" where
  "add_onclick pf p quick res1 res2 m =
     (let m1 = m\<lparr>add_disabled := True, msg_text := ''Adding...''\<rparr>;
          qty = (if qty_value m1 = [] then ANum (Fin 1) else AStr (qty_value m1));
          vid = (case dataset_variantId m1 of None \<Rightarrow> [] | Some s \<Rightarrow> s)
      in if vid = [] then
           (m1\<lparr>msg_text := ''Please select variant'', add_disabled := False\<rparr>, [])
         else
           (case addToCart pf (AStr vid) qty res1 of
              (post1, Inl err) \<Rightarrow>
                (m1\<lparr>msg_text := ''Could not add to cart. Try again.'', add_disabled := False\<rparr>,
                 [post1, Console_error])
            | (post1, Inr _) \<Rightarrow>
                (let vals = optionValues pf (chosenVariant pf p vid);
                     upsellVariantId = getUpsellVariantIdFromSection pf quick
                 in case (hasBlack vals \<and> hasMedium vals, upsellVariantId) of
                      (True, Some upsell) \<Rightarrow>
                        (case addToCart pf (ANum upsell) (ANum (Fin 1)) res2 of
                           (post2, Inl e) \<Rightarrow>
                             (m1, [post1, post2, Console_warn, Navigate ''/cart''])
                         | (post2, Inr _) \<Rightarrow> (m1, [post1, post2, Navigate ''/cart'']))
                    | _ \<Rightarrow> (m1, [post1, Navigate ''/cart'']))))"

section \<open>Click and key dispatcher\<close>

text \<open>
  What \<^verbatim>\<open>ev.target.closest\<close> finds for a click: the enclosing trigger, if any, and
  whether the target is inside an element marked \<^verbatim>\<open>data-cqv-close\<close>.
\<close>

record click_target =
  closest_quick :: "quick option"
  closest_close :: bool

text \<open>The document click listener, lines 170-257; \<open>res\<close> is how the product fetch settles.\<close>

definition on_click :: "platform \<Rightarrow> click_target \<Rightarrow> product response \<Rightarrow> page \<Rightarrow> page \<times> effect list" where
  "on_click pf ev res pg =
     (case closest_quick ev of
        Some quick \<Rightarrow>
          (let handle = (case data_handle quick of None \<Rightarrow> [] | Some h \<Rightarrow> h)
           in if handle = [] then (pg, [Alert ''Product handle missing''])
              else
                (case res of
                   Ok_json product \<Rightarrow>
                     (let m = (ensureModal pg)\<lparr>title_text := p_title product\<rparr>
                      in case buildVariantPickers pf m product of
                           (m', Some err) \<Rightarrow>
                             (pg\<lparr>quickview := Some m'\<rparr>,
                              [Fetch_product (''/products/'' @ handle @ ''.js''), Console_error,
                               Alert ''Unable to load product.''])
                         | (m', None) \<Rightarrow>
                             (openModal (m'\<lparr>add_handler := Some (product, quick)\<rparr>) pg,
                              [Fetch_product (''/products/'' @ handle @ ''.js'')]))
                 | _ \<Rightarrow>
                     (pg, [Fetch_product (''/products/'' @ handle @ ''.js''), Console_error,
                           Alert ''Unable to load product.''])))
      | None \<Rightarrow>
          if closest_close ev then
            (case quickview pg of Some m \<Rightarrow> (closeModal m pg, []) | None \<Rightarrow> (pg, []))
          else (pg, []))"

text \<open>The \<^verbatim>\<open>keydown\<close> listener, lines 260-265.\<close>

definition on_keydown :: "string \<Rightarrow> page \<Rightarrow> page" where
  "on_keydown key pg =
     (if key = ''Escape'' then
        (case quickview pg of
           Some m \<Rightarrow> if is_open m then closeModal m pg else pg
         | None \<Rightarrow> pg)
      else pg)"

text \<open>
  The events of a page session, each with the way its network calls settle, and the
  page after a handler has run to its end.
\<close>

datatype event =
    Click click_target "product response"
  | Key_down string
  | Click_add "unit response" "unit response"
  | Click_option nat

fun step :: "platform \<Rightarrow> page \<Rightarrow> event \<Rightarrow> page \<times> effect list" where
  "step pf pg (Click ev res) = on_click pf ev res pg"
| "step pf pg (Key_down key) = (on_keydown key pg, [])"
| "step pf pg (Click_add res1 res2) =
     (case quickview pg of
        None \<Rightarrow> (pg, [])
      | Some m \<Rightarrow>
          (case add_handler m of
             None \<Rightarrow> (pg, [])
           | Some (p, quick) \<Rightarrow>
               (let (m', effs) = add_onclick pf p quick res1 res2 m
                in (pg\<lparr>quickview := Some m'\<rparr>, effs))))"
| "step pf pg (Click_option k) =
     (case quickview pg of
        None \<Rightarrow> (pg, [])
      | Some m \<Rightarrow>
          (case picker_product m of
             None \<Rightarrow> (pg, [])
           | Some p \<Rightarrow> (pg\<lparr>quickview := Some (click_opt pf p k m)\<rparr>, [])))"

fun run :: "platform \<Rightarrow> page \<Rightarrow> event list \<Rightarrow> page" where
  "run pf pg [] = pg"
| "run pf pg (ev # evs) = run pf (fst (step pf pg ev)) evs"

section \<open>Observations on pages and effect lists\<close>

definition modal_is_open :: "page \<Rightarrow> bool" where
  "modal_is_open pg = (case quickview pg of Some m \<Rightarrow> is_open m | None \<Rightarrow> False)"

definition lock_inv :: "page \<Rightarrow> bool" where
  "lock_inv pg = (no_scroll pg = modal_is_open pg)"

fun is_Cart_add :: "effect \<Rightarrow> bool" where
  "is_Cart_add (Cart_add b) = True"
| "is_Cart_add _ = False"

fun is_Alert :: "effect \<Rightarrow> bool" where
  "is_Alert (Alert s) = True"
| "is_Alert _ = False"

definition cart_adds :: "effect list \<Rightarrow> effect list" where
  "cart_adds effs = filter is_Cart_add effs"

text \<open>The POST of the shopper's own item: the stored variant id and the quantity field.\<close>

definition primary_post :: "platform \<Rightarrow> string \<Rightarrow> string \<Rightarrow> effect" where
  "primary_post pf vid qty =
     Cart_add \<lparr>body_id = JSON_number (Number_of_string pf vid),
               body_quantity = JSON_number (if qty = [] then Fin 1
                                            else Number_of_string pf qty)\<rparr>"

text \<open>The POST of the upsell item: quantity 1 of the configured identifier.\<close>

definition upsell_post :: "jsnum \<Rightarrow> effect" where
  "upsell_post upsell = Cart_add \<lparr>body_id = JSON_number upsell, body_quantity = Json_number 1\<rparr>"

text \<open>What the add handler does between its first POST and the navigation.\<close>

definition upsell_tail ::
  "platform \<Rightarrow> product \<Rightarrow> quick \<Rightarrow> string \<Rightarrow> unit response \<Rightarrow> effect list" where
  "upsell_tail pf p quick vid res2 =
     (if hasBlack (optionValues pf (chosenVariant pf p vid))
         \<and> hasMedium (optionValues pf (chosenVariant pf p vid))
      then (case getUpsellVariantIdFromSection pf quick of
              None \<Rightarrow> []
            | Some u \<Rightarrow> upsell_post u # (if res2 = Ok_json () then [] else [Console_warn]))
      else [])"

section \<open>Pre-seeding and clicking through\<close>

text \<open>The modal as \<^verbatim>\<open>buildVariantPickers\<close> leaves it, pre-seeded.\<close>

definition seeded :: "platform \<Rightarrow> modal \<Rightarrow> product \<Rightarrow> modal" where
  "seeded pf m p = fst (buildVariantPickers pf m p)"

text \<open>
  The modal after the pickers have been rendered with nothing selected and the shopper
  has clicked through the option values of the initial variant.
\<close>

definition clicked_through :: "platform \<Rightarrow> modal \<Rightarrow> product \<Rightarrow> modal" where
  "clicked_through pf m p =
     (case initialVariant p of
        None \<Rightarrow> render_pickers p m
      | Some iv \<Rightarrow> manual_clicks pf p iv 0 (options p) (render_pickers p m))"





section \<open>An example host\<close>

fun negate :: "jsnum \<Rightarrow> jsnum" where
  "negate NaN = NaN"
| "negate (Fin r) = Fin (- r)"
| "negate (Infinity b) = Infinity (\<not> b)"

definition is_digit :: "char \<Rightarrow> bool" where
  "is_digit c = (48 \<le> (of_char c :: nat) \<and> (of_char c :: nat) \<le> 57)"

definition is_hex_digit :: "char \<Rightarrow> bool" where
  "is_hex_digit c =
     (let n = (of_char c :: nat)
      in (48 \<le> n \<and> n \<le> 57) \<or> (65 \<le> n \<and> n \<le> 70) \<or> (97 \<le> n \<and> n \<le> 102))"

definition digit_value :: "char \<Rightarrow> nat" where
  "digit_value c =
     (let n = (of_char c :: nat)
      in if 97 \<le> n then n - 87 else if 65 \<le> n then n - 55 else n - 48)"

definition digits_value :: "nat \<Rightarrow> string \<Rightarrow> nat" where
  "digits_value base ds = foldl (\<lambda>a c. base * a + digit_value c) 0 ds"

text \<open>
  The white space and line terminator characters that \<^verbatim>\<open>StringToNumber\<close> trims:
  TAB, LF, VT, FF, CR, SP, and in UTF-8 U+00A0, U+1680, U+2000..U+200A, U+2028, U+2029,
  U+202F, U+205F, U+3000 and U+FEFF.
\<close>

definition white_space :: "string list" where
  "white_space =
     [CHR 0x09] # [CHR 0x0A] # [CHR 0x0B] # [CHR 0x0C] # [CHR 0x0D] # [CHR 0x20] #
     [CHR 0xC2, CHR 0xA0] # [CHR 0xE1, CHR 0x9A, CHR 0x80] #
     [CHR 0xE2, CHR 0x80, CHR 0x80] # [CHR 0xE2, CHR 0x80, CHR 0x81] #
     [CHR 0xE2, CHR 0x80, CHR 0x82] # [CHR 0xE2, CHR 0x80, CHR 0x83] #
     [CHR 0xE2, CHR 0x80, CHR 0x84] # [CHR 0xE2, CHR 0x80, CHR 0x85] #
     [CHR 0xE2, CHR 0x80, CHR 0x86] # [CHR 0xE2, CHR 0x80, CHR 0x87] #
     [CHR 0xE2, CHR 0x80, CHR 0x88] # [CHR 0xE2, CHR 0x80, CHR 0x89] #
     [CHR 0xE2, CHR 0x80, CHR 0x8A] # [CHR 0xE2, CHR 0x80, CHR 0xA8] #
     [CHR 0xE2, CHR 0x80, CHR 0xA9] # [CHR 0xE2, CHR 0x80, CHR 0xAF] #
     [CHR 0xE2, CHR 0x81, CHR 0x9F] # [CHR 0xE3, CHR 0x80, CHR 0x80] #
     [CHR 0xEF, CHR 0xBB, CHR 0xBF] # []"

fun strip_leading :: "string list \<Rightarrow> string \<Rightarrow> string" where
  "strip_leading ws [] = []"
| "strip_leading ws (c # cs) =
     (case List.find (\<lambda>w. w \<noteq> [] \<and> prefix w (c # cs)) ws of
        None \<Rightarrow> c # cs
      | Some w \<Rightarrow> strip_leading ws (drop (length w - 1) cs))"

definition trim :: "string \<Rightarrow> string" where
  "trim s = rev (strip_leading (map rev white_space) (rev (strip_leading white_space s)))"

text \<open>
  \<^verbatim>\<open>StrUnsignedDecimalLiteral\<close> without its exponent part: digits, digits with a
  fraction, or a fraction alone.
\<close>

definition str_mantissa :: "string \<Rightarrow> rat option" where
  "str_mantissa s =
     (let ip = takeWhile is_digit s; r = dropWhile is_digit s
      in case r of
           [] \<Rightarrow> if ip = [] then None else Some (of_nat (digits_value 10 ip))
         | c # fp \<Rightarrow>
             if c = CHR ''.'' \<and> list_all is_digit fp \<and> (ip \<noteq> [] \<or> fp \<noteq> [])
             then Some (of_nat (digits_value 10 ip)
                        + of_nat (digits_value 10 fp) / 10 ^ length fp)
             else None)"

text \<open>\<^verbatim>\<open>SignedInteger\<close> of an exponent part.\<close>

definition str_exponent :: "string \<Rightarrow> int option" where
  "str_exponent s =
     (case s of
        [] \<Rightarrow> None
      | c # ds \<Rightarrow>
          if c = CHR ''+'' \<or> c = CHR ''-'' then
            (if ds \<noteq> [] \<and> list_all is_digit ds
             then Some ((if c = CHR ''-'' then - 1 else 1) * int (digits_value 10 ds))
             else None)
          else if list_all is_digit s then Some (int (digits_value 10 s)) else None)"

definition scale10 :: "rat \<Rightarrow> int \<Rightarrow> rat" where
  "scale10 a k = (if 0 \<le> k then a * 10 ^ nat k else a / 10 ^ nat (- k))"

definition is_exp_char :: "char \<Rightarrow> bool" where
  "is_exp_char c = (c = CHR ''e'' \<or> c = CHR ''E'')"

definition str_unsigned_decimal :: "string \<Rightarrow> jsnum" where
  "str_unsigned_decimal s =
     (if s = ''Infinity'' then Infinity True
      else (let m = takeWhile (\<lambda>c. \<not> is_exp_char c) s;
                r = dropWhile (\<lambda>c. \<not> is_exp_char c) s
            in case r of
                 [] \<Rightarrow> (case str_mantissa m of None \<Rightarrow> NaN | Some a \<Rightarrow> Fin a)
               | _ # ex \<Rightarrow>
                   (case str_mantissa m of
                      None \<Rightarrow> NaN
                    | Some a \<Rightarrow>
                        (case str_exponent ex of
                           None \<Rightarrow> NaN
                         | Some k \<Rightarrow> Fin (scale10 a k)))))"

definition str_decimal :: "string \<Rightarrow> jsnum" where
  "str_decimal s =
     (case s of
        [] \<Rightarrow> NaN
      | c # cs \<Rightarrow>
          if c = CHR ''+'' then str_unsigned_decimal cs
          else if c = CHR ''-'' then negate (str_unsigned_decimal cs)
          else str_unsigned_decimal s)"

text \<open>\<^verbatim>\<open>NonDecimalIntegerLiteral\<close>: 0b, 0o and 0x literals, which take no sign.\<close>

definition non_decimal :: "string \<Rightarrow> jsnum option" where
  "non_decimal s =
     (case s of
        z # x # ds \<Rightarrow>
          if z \<noteq> CHR ''0'' then None
          else if x = CHR ''x'' \<or> x = CHR ''X'' then
            Some (if ds \<noteq> [] \<and> list_all is_hex_digit ds
                  then Fin (of_nat (digits_value 16 ds)) else NaN)
          else if x = CHR ''o'' \<or> x = CHR ''O'' then
            Some (if ds \<noteq> [] \<and> list_all (\<lambda>c. is_digit c \<and> digit_value c < 8) ds
                  then Fin (of_nat (digits_value 8 ds)) else NaN)
          else if x = CHR ''b'' \<or> x = CHR ''B'' then
            Some (if ds \<noteq> [] \<and> list_all (\<lambda>c. is_digit c \<and> digit_value c < 2) ds
                  then Fin (of_nat (digits_value 2 ds)) else NaN)
          else None
      | _ \<Rightarrow> None)"

text \<open>
  The value that the grammar of \<^verbatim>\<open>StringToNumber\<close> gives a string: not a number
  when the string is no numeric literal, else the exact value of the literal.
\<close>

definition literal_value :: "string \<Rightarrow> jsnum" where
  "literal_value s =
     (let t = trim s
      in if t = [] then Fin 0
         else (case non_decimal t of Some n \<Rightarrow> n | None \<Rightarrow> str_decimal t))"

text \<open>Lower-casing of the ASCII letters.\<close>

definition lower_char :: "char \<Rightarrow> char" where
  "lower_char c =
     (case map_of (zip ''ABCDEFGHIJKLMNOPQRSTUVWXYZ'' ''abcdefghijklmnopqrstuvwxyz'') c of
        Some l \<Rightarrow> l
      | None \<Rightarrow> c)"

definition ascii_lower :: "string \<Rightarrow> string" where
  "ascii_lower s = map lower_char s"

text \<open>
  IEEE 754 binary64 rounding of a real number \<open>p / q\<close>, to the nearest double and on a
  tie to the one with an even significand: with \<open>e\<close> the exponent of the number, the
  unit in its last place is \<open>2^k\<close> for \<open>k = e - 52\<close> (2^-1074 for a subnormal), the
  double is the nearest multiple \<open>n * 2^k\<close>, and from 2^1024 on it is an infinity.
\<close>

fun bit_length :: "int \<Rightarrow> nat" where
  "bit_length a = (if a \<le> 0 then 0 else Suc (bit_length (a div 2)))"

declare bit_length.simps [simp del]

definition floor_log2 :: "int \<Rightarrow> int \<Rightarrow> int" where
  "floor_log2 p q =
     (let e = int (bit_length p) - int (bit_length q)
      in if (if 0 \<le> e then q * 2 ^ nat e \<le> p else q \<le> p * 2 ^ nat (- e)) then e
         else e - 1)"

definition binary64 :: "rat \<Rightarrow> jsnum" where
  "binary64 r =
     (if r = 0 then Fin 0
      else
        (let (p, q) = quotient_of \<bar>r\<bar>;
             k = max (floor_log2 p q) (- 1022) - 52;
             num = (if k < 0 then p * 2 ^ nat (- k) else p);
             den = (if k < 0 then q else q * 2 ^ nat k);
             f = num div den;
             twice = 2 * (num mod den);
             n = (if twice < den then f else if den < twice then f + 1
                  else if even f then f else f + 1)
         in if 0 \<le> k \<and> 2 ^ 1024 \<le> n * 2 ^ nat k then Infinity (0 < r)
            else Fin ((if r < 0 then - 1 else 1)
                      * (if k < 0 then Fract n (2 ^ nat (- k)) else of_int (n * 2 ^ nat k)))))"

text \<open>\<^verbatim>\<open>Number(s)\<close> in an engine that rounds the value of a literal correctly.\<close>

definition engine_Number :: "string \<Rightarrow> jsnum" where
  "engine_Number s = (case literal_value s of Fin r \<Rightarrow> binary64 r | n \<Rightarrow> n)"

text \<open>
  A browser without the \<^verbatim>\<open>Shopify\<close> global: the formatter of style
  \<^verbatim>\<open>currency\<close> throws a TypeError when no currency is given, and else writes the
  currency code, a space and the amount with two decimals. Its strings are taken to be
  ASCII, and no script has added to \<^verbatim>\<open>Object.prototype\<close>. Of its
  \<^verbatim>\<open>Number::toString\<close> only the string for 10^21 is given: the examples hold no
  identifier beyond 2^53 and no amount from 10^21 on.
\<close>

definition bare_host :: platform where
  "bare_host =
     \<lparr>shopify_currency_active = None,
      intl_format = (\<lambda>currency x. case currency of
                        None \<Rightarrow> Inl TypeError
                      | Some c \<Rightarrow>
                          (case x of
                             Fin r \<Rightarrow> Inr (c @ '' '' @ (if r < 0 then ''-'' else [])
                                            @ fixed_digits \<bar>r\<bar> 2)
                           | _ \<Rightarrow> Inr (c @ '' NaN''))),
      number_toString = (\<lambda>r. ''1e+21''),
      number_value = binary64,
      Number_of_string = engine_Number,
      toLowerCase = ascii_lower,
      added_to_prototype = (\<lambda>name. False)\<rparr>"

text \<open>The same browser on a shop page with the active currency USD.\<close>

definition shop_host :: platform where
  "shop_host = bare_host\<lparr>shopify_currency_active := Some ''USD''\<rparr>"

section \<open>Example data\<close>

definition tee_black_small :: variant where
  "tee_black_small =
     \<lparr>v_id = 101, v_title = Str ''Black / Small'', v_price = 1999, v_available = False,
      option1 = Str ''Black'', option2 = Str ''Small'', option3 = Null\<rparr>"

definition tee_black_medium :: variant where
  "tee_black_medium =
     \<lparr>v_id = 102, v_title = Str ''Black / Medium'', v_price = 1999, v_available = True,
      option1 = Str ''Black'', option2 = Str ''Medium'', option3 = Null\<rparr>"

definition tee_white_medium :: variant where
  "tee_white_medium =
     \<lparr>v_id = 103, v_title = Str ''White / Medium'', v_price = 2199, v_available = True,
      option1 = Str ''White'', option2 = Str ''Medium'', option3 = Null\<rparr>"

definition tee :: product where
  "tee = \<lparr>p_title = ''Tee'', options = [''Color'', ''Size''],
          variants = [tee_black_small, tee_black_medium, tee_white_medium]\<rparr>"

definition white_selected :: sel_object where
  "white_selected = set_property empty_object ''Color'' (Str ''White'')"

definition tee_trigger :: quick where
  "tee_trigger =
     \<lparr>data_handle = Some ''tee'', closest_section = Some (Some ''900''),
      document_section = Some None\<rparr>"

definition bare_trigger :: quick where
  "bare_trigger = \<lparr>data_handle = None, closest_section = None, document_section = None\<rparr>"

definition open_page :: page where
  "open_page = \<lparr>quickview = Some (new_modal\<lparr>is_open := True\<rparr>), no_scroll = True\<rparr>"

definition tee_modal :: modal where
  "tee_modal = new_modal\<lparr>is_open := True, dataset_variantId := Some ''102''\<rparr>"


definition zero_trigger :: quick where
  "zero_trigger =
     \<lparr>data_handle = Some ''tee'', closest_section = None, document_section = Some (Some ''0'')\<rparr>"

definition minus_trigger :: quick where
  "minus_trigger = zero_trigger\<lparr>document_section := Some (Some ''-5'')\<rparr>"

definition fraction_trigger :: quick where
  "fraction_trigger = zero_trigger\<lparr>document_section := Some (Some ''1.5'')\<rparr>"

definition word_trigger :: quick where
  "word_trigger = zero_trigger\<lparr>document_section := Some (Some ''abc'')\<rparr>"

definition empty_qty_modal :: modal where
  "empty_qty_modal = tee_modal\<lparr>qty_value := []\<rparr>"




definition hat :: product where
  "hat = \<lparr>p_title = ''Hat'', options = [],
          variants = [\<lparr>v_id = 301, v_title = Null, v_price = 900, v_available = True,
                       option1 = Null, option2 = Null, option3 = Null\<rparr>]\<rparr>"

definition twin :: product where
  "twin = \<lparr>p_title = ''Twin'', options = [''Color''],
           variants = [\<lparr>v_id = 401, v_title = Str ''Red'', v_price = 1000, v_available = False,
                        option1 = Str ''Red'', option2 = Null, option3 = Null\<rparr>,
                       \<lparr>v_id = 402, v_title = Str ''Red'', v_price = 1200, v_available = True,
                        option1 = Str ''Red'', option2 = Null, option3 = Null\<rparr>]\<rparr>"

definition sizes :: product where
  "sizes = \<lparr>p_title = ''Sizes'', options = [''Size'', ''Size''],
            variants = [\<lparr>v_id = 501, v_title = Str ''S / M'', v_price = 700, v_available = True,
                         option1 = Str ''S'', option2 = Str ''M'', option3 = Null\<rparr>]\<rparr>"

text \<open>
  Products whose option is named as a member of \<^verbatim>\<open>Object.prototype\<close>, and a product
  whose only value holds U+0000.
\<close>

definition cap :: product where
  "cap = \<lparr>p_title = ''Cap'', options = [''constructor''],
          variants = [\<lparr>v_id = 601, v_title = Str ''Flat'', v_price = 1500, v_available = True,
                       option1 = Str ''Flat'', option2 = Null, option3 = Null\<rparr>]\<rparr>"

definition belt :: product where
  "belt = \<lparr>p_title = ''Belt'', options = [''__proto__''],
           variants = [\<lparr>v_id = 701, v_title = Str ''Wide'', v_price = 1100, v_available = True,
                        option1 = Str ''Wide'', option2 = Null, option3 = Null\<rparr>]\<rparr>"



section \<open>Properties of the variant resolver\<close>

lemma every_from_iff:
  "every_from i f xs = (\<forall>k < length xs. f (xs ! k) (i + k))"
proof (induction xs arbitrary: i)
  case Nil
  show ?case by simp
next
  case (Cons x xs)
  have "(\<forall>k < Suc (length xs). f ((x # xs) ! k) (i + k)) =
        (f x i \<and> (\<forall>k < length xs. f (xs ! k) (Suc i + k)))"
    by (auto simp: less_Suc_eq_0_disj)
  with Cons show ?case by simp
qed

text \<open>The test that the resolver applies to a variant, option by option.\<close>

lemma findVariant_find:
  "findVariant pf p sel =
     List.find (\<lambda>v. \<forall>idx < length (options p).
                  looked_up_truthy (get_property pf sel (options p ! idx)) \<longrightarrow>
                  strictly_equal (option_prop v (idx + 1)) (get_property pf sel (options p ! idx)))
       (variants p)"
proof -
  have "every (\<lambda>optName idx.
        (let want = get_property pf sel optName in
         if \<not> looked_up_truthy want then True
         else (let got = option_prop v (idx + 1) in strictly_equal got want))) (options p)
      = (\<forall>idx < length (options p).
           looked_up_truthy (get_property pf sel (options p ! idx)) \<longrightarrow>
           strictly_equal (option_prop v (idx + 1)) (get_property pf sel (options p ! idx)))"
    for v
    by (auto simp: every_def every_from_iff Let_def)
  then show ?thesis by (simp add: findVariant_def)
qed

lemma get_property_own:
  assumes "\<not> prototype_has pf name"
  shows "get_property pf sel name =
           Value (case own_props sel name of None \<Rightarrow> Undefined | Some v \<Rightarrow> v)"
  using assms by (simp add: get_property_def split: option.split)

lemma matches_selection_iff:
  assumes "\<forall>name \<in> set (options p). \<not> prototype_has pf name"
  shows "(\<forall>idx < length (options p).
            looked_up_truthy (get_property pf sel (options p ! idx)) \<longrightarrow>
            strictly_equal (option_prop v (idx + 1)) (get_property pf sel (options p ! idx)))
         = matches_selection p sel v"
proof -
  have "get_property pf sel (options p ! idx) =
      Value (case own_props sel (options p ! idx) of None \<Rightarrow> Undefined | Some w \<Rightarrow> w)"
    if "idx < length (options p)" for idx
    using assms that by (simp add: get_property_own)
  then show ?thesis
    by (auto simp: matches_selection_def split: option.splits)
qed

lemma findVariant_matches:
  assumes "\<forall>name \<in> set (options p). \<not> prototype_has pf name"
  shows "findVariant pf p sel = List.find (matches_selection p sel) (variants p)"
  unfolding findVariant_find matches_selection_iff [OF assms] ..

lemma matches_empty_object: "matches_selection p empty_object v"
  by (simp add: matches_selection_def empty_object_def)

text \<open>
  Claim C1 as stated, for every product, fails for the cap, whose option is named
  \<^verbatim>\<open>constructor\<close>: the selection object is empty, the product has a variant, and
  the resolver returns none, because the object inherits a member of that name.
\<close>

theorem findVariant_inherited_counterexample:
  "own_props empty_object ''constructor'' = None \<and> variants cap \<noteq> []
   \<and> findVariant bare_host cap empty_object = None"
  by code_simp

text \<open>
  Claim C1, amended. For a product none of whose option names is the name of a
  property of \<^verbatim>\<open>Object.prototype\<close>, the resolver returns the first variant, in list
  order, that matches the selection map; it returns none exactly when no variant
  matches; for the empty selection map it returns the head of the variant list (none
  for an empty list).
\<close>

theorem findVariant_first_match:
  "(\<forall>name \<in> set (options p). \<not> prototype_has pf name) \<longrightarrow>
     (findVariant pf p sel = None \<longleftrightarrow> (\<forall>v \<in> set (variants p). \<not> matches_selection p sel v))
     \<and> (findVariant pf p sel = Some v \<longleftrightarrow>
          (\<exists>i < length (variants p). variants p ! i = v \<and> matches_selection p sel v
             \<and> (\<forall>j < i. \<not> matches_selection p sel (variants p ! j))))
     \<and> findVariant pf p empty_object = (case variants p of [] \<Rightarrow> None | w # _ \<Rightarrow> Some w)"
proof (intro impI conjI)
  assume names: "\<forall>name \<in> set (options p). \<not> prototype_has pf name"
  show "findVariant pf p sel = None \<longleftrightarrow> (\<forall>v \<in> set (variants p). \<not> matches_selection p sel v)"
    by (auto simp: findVariant_matches [OF names] find_None_iff)
  show "findVariant pf p sel = Some v \<longleftrightarrow>
        (\<exists>i < length (variants p). variants p ! i = v \<and> matches_selection p sel v
           \<and> (\<forall>j < i. \<not> matches_selection p sel (variants p ! j)))"
    unfolding findVariant_matches [OF names] find_Some_iff by blast
  show "findVariant pf p empty_object = (case variants p of [] \<Rightarrow> None | w # _ \<Rightarrow> Some w)"
    by (cases "variants p") (simp_all add: findVariant_matches [OF names] matches_empty_object)
qed

lemma tee_option_names: "\<forall>name \<in> set (options tee). \<not> prototype_has bare_host name"
  by (simp add: tee_def prototype_has_def standard_prototype_names_def bare_host_def)

theorem findVariant_first_match_witness:
  "findVariant bare_host tee white_selected = Some tee_white_medium
   \<and> (\<exists>i < length (variants tee). variants tee ! i = tee_white_medium
         \<and> matches_selection tee white_selected tee_white_medium
         \<and> (\<forall>j < i. \<not> matches_selection tee white_selected (variants tee ! j)))
   \<and> findVariant bare_host tee empty_object = Some tee_black_small"
proof -
  have found: "findVariant bare_host tee white_selected = Some tee_white_medium"
    by code_simp
  have head: "(case variants tee of [] \<Rightarrow> None | w # _ \<Rightarrow> Some w) = Some tee_black_small"
    by (simp add: tee_def)
  from findVariant_first_match [of tee bare_host white_selected tee_white_medium]
    tee_option_names found head
  show ?thesis by simp
qed

section \<open>The money formatter returns\<close>

lemma toFixed_two: "\<exists>s. toFixed pf x 2 = Inr s"
  by (cases x) (simp_all add: toFixed_def)

lemma formatMoney_returns: "\<exists>s. formatMoney pf cents = Inr s"
proof (cases "intl_format pf (active_currency pf) (hundredth pf cents)")
  case (Inl e)
  then show ?thesis using toFixed_two [of pf "hundredth pf cents"]
    by (simp add: formatMoney_def)
next
  case (Inr s)
  then show ?thesis by (simp add: formatMoney_def)
qed

section \<open>The pickers leave the open flag alone and throw nothing\<close>

lemma click_opt_is_open: "is_open (click_opt pf p k m) = is_open m"
  by (simp add: click_opt_def Let_def split: option.split sum.split)

lemma preselect_is_open: "is_open (preselect pf p iv idx opts m) = is_open m"
  by (induction opts arbitrary: idx m) (simp_all add: Let_def click_opt_is_open split: option.split)

lemma buildVariantPickers_is_open: "is_open (fst (buildVariantPickers pf m p)) = is_open m"
  by (simp add: buildVariantPickers_def render_pickers_def Let_def preselect_is_open
      split: option.split sum.split)

lemma buildVariantPickers_no_throw: "snd (buildVariantPickers pf m p) = None"
proof (cases "initialVariant p")
  case None
  then show ?thesis by (simp add: buildVariantPickers_def Let_def)
next
  case (Some iv)
  obtain s where "formatMoney pf (v_price iv) = Inr s"
    using formatMoney_returns by blast
  with Some show ?thesis by (simp add: buildVariantPickers_def Let_def)
qed

lemma buildVariantPickers_result:
  assumes "buildVariantPickers pf m p = (m', thrown)"
  shows "is_open m' = is_open m" and "thrown = None"
  using assms buildVariantPickers_is_open [of pf m p] buildVariantPickers_no_throw [of pf m p]
  by simp_all



section \<open>The add handler, case by case\<close>

lemma addToCart_post:
  "fst (addToCart pf (AStr vid) (if qty = [] then ANum (Fin 1) else AStr qty) res) = primary_post pf vid qty"
  by (simp add: addToCart_def primary_post_def)

lemma addToCart_upsell: "fst (addToCart pf (ANum u) (ANum (Fin 1)) res) = upsell_post u"
  by (simp add: addToCart_def upsell_post_def)

lemma addToCart_settles:
  "snd (addToCart pf a b res) = (case res of Rejected \<Rightarrow> Inl TypeError
      | Status_not_ok \<Rightarrow> Inl (Error ''Cart add failed'')
      | Invalid_json \<Rightarrow> Inl SyntaxError | Ok_json j \<Rightarrow> Inr j)"
  by (simp add: addToCart_def)

lemma add_onclick_no_variant:
  assumes "dataset_variantId m = None \<or> dataset_variantId m = Some []"
  shows "add_onclick pf p quick res1 res2 m =
           (m\<lparr>add_disabled := False, msg_text := ''Please select variant''\<rparr>, [])"
  using assms by (auto simp: add_onclick_def Let_def)

lemma add_onclick_failed:
  assumes "dataset_variantId m = Some vid" and "vid \<noteq> []" and "res1 \<noteq> Ok_json ()"
  shows "add_onclick pf p quick res1 res2 m =
           (m\<lparr>add_disabled := False, msg_text := ''Could not add to cart. Try again.''\<rparr>,
            [primary_post pf vid (qty_value m), Console_error])"
  using assms
  by (cases res1) (simp_all add: add_onclick_def Let_def addToCart_def primary_post_def)

lemma add_onclick_ok:
  assumes "dataset_variantId m = Some vid" and "vid \<noteq> []"
  shows "add_onclick pf p quick (Ok_json ()) res2 m =
           (m\<lparr>add_disabled := True, msg_text := ''Adding...''\<rparr>,
            primary_post pf vid (qty_value m) # upsell_tail pf p quick vid res2 @ [Navigate ''/cart''])"
  using assms
  by (cases res2)
     (auto simp: add_onclick_def Let_def addToCart_def primary_post_def upsell_post_def
        upsell_tail_def split: option.split bool.split)


lemma add_onclick_is_open: "is_open (fst (add_onclick pf p q r1 r2 m)) = is_open m"
proof (cases "dataset_variantId m = None \<or> dataset_variantId m = Some []")
  case True
  then show ?thesis by (simp add: add_onclick_no_variant)
next
  case False
  then obtain vid where vid: "dataset_variantId m = Some vid" "vid \<noteq> []"
    by auto
  show ?thesis
  proof (cases "r1 = Ok_json ()")
    case True
    with vid show ?thesis by (simp add: add_onclick_ok)
  next
    case False
    with vid show ?thesis by (simp add: add_onclick_failed)
  qed
qed

lemma add_onclick_result:
  assumes "add_onclick pf p q r1 r2 m = (m', effs)"
  shows "is_open m' = is_open m"
  using assms add_onclick_is_open [of pf p q r1 r2 m] by simp

section \<open>The scroll lock follows the modal\<close>

lemma on_click_inv: "lock_inv pg \<Longrightarrow> lock_inv (fst (on_click pf ev res pg))"
  by (auto simp: on_click_def lock_inv_def modal_is_open_def Let_def openModal_def closeModal_def
      split: option.split response.split prod.split dest: buildVariantPickers_result(2))

lemma step_inv: "lock_inv pg \<Longrightarrow> lock_inv (fst (step pf pg ev))"
proof (cases ev)
  case (Click t res)
  assume "lock_inv pg"
  then show ?thesis using Click by (simp add: on_click_inv)
next
  case (Key_down key)
  assume "lock_inv pg"
  then show ?thesis using Key_down
    by (auto simp: on_keydown_def lock_inv_def modal_is_open_def closeModal_def split: option.split)
next
  case (Click_add r1 r2)
  assume "lock_inv pg"
  then show ?thesis using Click_add
    by (auto simp: lock_inv_def modal_is_open_def split: option.split prod.split
        dest: add_onclick_result)
next
  case (Click_option k)
  assume "lock_inv pg"
  then show ?thesis using Click_option
    by (auto simp: lock_inv_def modal_is_open_def click_opt_is_open split: option.split)
qed

lemma run_inv: "lock_inv pg \<Longrightarrow> lock_inv (run pf pg evs)"
  by (induction evs arbitrary: pg) (simp_all add: step_inv)

section \<open>The upsell rule\<close>




lemma cart_adds_Cons_post:
  "cart_adds (Cart_add b # effs) = Cart_add b # cart_adds effs"
  by (simp add: cart_adds_def)

lemma cart_adds_snoc_Navigate: "cart_adds (effs @ [Navigate s]) = cart_adds effs"
  by (simp add: cart_adds_def)

lemma cart_adds_upsell_tail:
  "cart_adds (upsell_tail pf p quick vid res2) =
     (if hasBlack (optionValues pf (chosenVariant pf p vid)) \<and> hasMedium (optionValues pf (chosenVariant pf p vid))
      then (case getUpsellVariantIdFromSection pf quick of None \<Rightarrow> [] | Some u \<Rightarrow> [upsell_post u])
      else [])"
  by (cases "getUpsellVariantIdFromSection pf quick")
     (simp_all add: upsell_tail_def upsell_post_def cart_adds_def cong: if_cong)

lemma cart_adds_ok:
  "cart_adds (primary_post pf vid qty # upsell_tail pf p quick vid res2 @ [Navigate ''/cart'']) =
     primary_post pf vid qty #
       (if hasBlack (optionValues pf (chosenVariant pf p vid)) \<and> hasMedium (optionValues pf (chosenVariant pf p vid))
        then (case getUpsellVariantIdFromSection pf quick of None \<Rightarrow> [] | Some u \<Rightarrow> [upsell_post u])
        else [])"
  unfolding primary_post_def cart_adds_Cons_post cart_adds_snoc_Navigate cart_adds_upsell_tail
  by (rule refl)



section \<open>The upsell rule on the example, the upsell identifier, missing input\<close>

lemma js_Number_102: "Number_of_string bare_host ''102'' = Fin 102"
  by code_simp

lemma js_Number_900: "Number_of_string bare_host ''900'' = Fin 900"
  by code_simp

lemma js_Number_1: "Number_of_string bare_host ''1'' = Fin 1"
  by code_simp

lemma tee_chosen: "chosenVariant bare_host tee ''102'' = Some tee_black_medium"
  by (simp add: chosenVariant_def js_Number_102 tee_def tee_black_small_def
      tee_black_medium_def tee_white_medium_def)

lemma tee_values: "optionValues bare_host (Some tee_black_medium) = [''black'', ''medium'']"
  by code_simp

lemma tee_upsell: "getUpsellVariantIdFromSection bare_host tee_trigger = Some (Fin 900)"
  by (simp add: getUpsellVariantIdFromSection_def findGridSection_def tee_trigger_def
      js_Number_900)



lemma js_Number_0: "Number_of_string bare_host ''0'' = Fin 0"
  by code_simp

lemma js_Number_minus_5: "Number_of_string bare_host ''-5'' = Fin (- 5)"
  by code_simp

lemma js_Number_1_5: "Number_of_string bare_host ''1.5'' = Fin (3 / 2)"
  by code_simp

lemma js_Number_abc: "Number_of_string bare_host ''abc'' = NaN"
  by code_simp

lemma num_truthy_iff: "num_truthy n = (n \<noteq> NaN \<and> n \<noteq> Fin 0)"
  by (cases n) simp_all

lemma getUpsell_attr:
  "findGridSection q = Some (Some v) \<Longrightarrow>
     getUpsellVariantIdFromSection pf q =
       (if v \<noteq> [] \<and> Number_of_string pf v \<noteq> NaN \<and> Number_of_string pf v \<noteq> Fin 0 then Some (Number_of_string pf v) else None)"
  by (simp add: getUpsellVariantIdFromSection_def num_truthy_iff)

text \<open>
  Claim C9. The section lookup yields no identifier exactly when there is no grid
  section, when the attribute is absent or empty, and when \<^verbatim>\<open>Number\<close> of the attribute is
  NaN or zero; so an attribute "0", which \<^verbatim>\<open>Number\<close> reads as zero, yields none, and so
  does one that \<^verbatim>\<open>Number\<close> reads as NaN. An attribute that \<^verbatim>\<open>Number\<close> reads as any other
  number, negative or fractional included, yields that number.
\<close>

theorem upsell_id_coercion:
  "(getUpsellVariantIdFromSection pf q = None \<longleftrightarrow>
      findGridSection q = None \<or> findGridSection q = Some None
      \<or> (\<exists>v. findGridSection q = Some (Some v)
            \<and> (v = [] \<or> Number_of_string pf v = NaN \<or> Number_of_string pf v = Fin 0)))
   \<and> (findGridSection q = Some (Some v) \<and> v \<noteq> [] \<and> Number_of_string pf v \<noteq> NaN
        \<and> Number_of_string pf v \<noteq> Fin 0
        \<longrightarrow> getUpsellVariantIdFromSection pf q = Some (Number_of_string pf v))
   \<and> (findGridSection q = Some (Some ''0'') \<and> Number_of_string pf ''0'' = Fin 0
        \<longrightarrow> getUpsellVariantIdFromSection pf q = None)
   \<and> (findGridSection q = Some (Some v) \<and> Number_of_string pf v = NaN
        \<longrightarrow> getUpsellVariantIdFromSection pf q = None)
   \<and> (findGridSection q = Some (Some v) \<and> v \<noteq> [] \<and> Number_of_string pf v = Fin r
        \<and> (r < 0 \<or> r \<notin> \<int>)
        \<longrightarrow> getUpsellVariantIdFromSection pf q = Some (Fin r))"
proof (intro conjI impI)
  show "getUpsellVariantIdFromSection pf q = None \<longleftrightarrow>
      findGridSection q = None \<or> findGridSection q = Some None
      \<or> (\<exists>v. findGridSection q = Some (Some v)
            \<and> (v = [] \<or> Number_of_string pf v = NaN \<or> Number_of_string pf v = Fin 0))"
  proof (cases "findGridSection q")
    case None
    then show ?thesis by (simp add: getUpsellVariantIdFromSection_def)
  next
    case (Some sec)
    show ?thesis
    proof (cases sec)
      case None
      with Some show ?thesis by (simp add: getUpsellVariantIdFromSection_def)
    next
      case (Some w)
      with \<open>findGridSection q = Some sec\<close> show ?thesis
        by (simp add: getUpsell_attr)
    qed
  qed
next
  assume "findGridSection q = Some (Some v) \<and> v \<noteq> [] \<and> Number_of_string pf v \<noteq> NaN
      \<and> Number_of_string pf v \<noteq> Fin 0"
  then show "getUpsellVariantIdFromSection pf q = Some (Number_of_string pf v)"
    by (simp add: getUpsell_attr)
next
  assume "findGridSection q = Some (Some ''0'') \<and> Number_of_string pf ''0'' = Fin 0"
  then show "getUpsellVariantIdFromSection pf q = None"
    by (simp add: getUpsell_attr)
next
  assume "findGridSection q = Some (Some v) \<and> Number_of_string pf v = NaN"
  then show "getUpsellVariantIdFromSection pf q = None"
    by (simp add: getUpsell_attr)
next
  assume a: "findGridSection q = Some (Some v) \<and> v \<noteq> [] \<and> Number_of_string pf v = Fin r
      \<and> (r < 0 \<or> r \<notin> \<int>)"
  then have "r \<noteq> 0" by auto
  with a show "getUpsellVariantIdFromSection pf q = Some (Fin r)"
    by (simp add: getUpsell_attr)
qed

lemma minus_trigger_section:
  "findGridSection minus_trigger = Some (Some ''-5'')"
  by (simp add: findGridSection_def minus_trigger_def zero_trigger_def)

lemma fraction_trigger_section:
  "findGridSection fraction_trigger = Some (Some ''1.5'')"
  by (simp add: findGridSection_def fraction_trigger_def zero_trigger_def)

lemma word_trigger_section:
  "findGridSection word_trigger = Some (Some ''abc'')"
  by (simp add: findGridSection_def word_trigger_def zero_trigger_def)

lemma three_halves_fraction: "(3 / 2 :: rat) \<notin> \<int>"
proof
  assume "(3 / 2 :: rat) \<in> \<int>"
  then obtain z :: int where z: "(3 / 2 :: rat) = of_int z" by (auto elim: Ints_cases)
  then have "(of_int (2 * z) :: rat) = of_int 3" by simp
  then have "2 * z = 3" by (simp only: of_int_eq_iff)
  then show False by presburger
qed

theorem upsell_id_coercion_witness:
  "getUpsellVariantIdFromSection bare_host zero_trigger = None
   \<and> getUpsellVariantIdFromSection bare_host word_trigger = None
   \<and> getUpsellVariantIdFromSection bare_host tee_trigger = Some (Fin 900)
   \<and> getUpsellVariantIdFromSection bare_host minus_trigger = Some (Fin (- 5))
   \<and> getUpsellVariantIdFromSection bare_host fraction_trigger = Some (Fin (3 / 2))"
proof -
  have zero: "findGridSection zero_trigger = Some (Some ''0'')"
    by (simp add: findGridSection_def zero_trigger_def)
  have tee: "findGridSection tee_trigger = Some (Some ''900'')
      \<and> ''900'' \<noteq> [] \<and> Number_of_string bare_host ''900'' \<noteq> NaN
      \<and> Number_of_string bare_host ''900'' \<noteq> Fin 0"
    by (simp add: findGridSection_def tee_trigger_def js_Number_900)
  from upsell_id_coercion [where pf = bare_host and q = zero_trigger and v = "''900''" and r = "0"] zero js_Number_0
  have "getUpsellVariantIdFromSection bare_host zero_trigger = None" by blast
  moreover from upsell_id_coercion [where pf = bare_host and q = word_trigger and v = "''abc''" and r = "0"]
    word_trigger_section js_Number_abc
  have "getUpsellVariantIdFromSection bare_host word_trigger = None" by blast
  moreover from upsell_id_coercion [where pf = bare_host and q = tee_trigger and v = "''900''" and r = "0"] tee
  have "getUpsellVariantIdFromSection bare_host tee_trigger
      = Some (Number_of_string bare_host ''900'')" by blast
  moreover have "''-5'' \<noteq> [] \<and> (- 5 :: rat) < 0" by simp
  with upsell_id_coercion [where pf = bare_host and q = minus_trigger and v = "''-5''" and r = "- 5"]
    minus_trigger_section js_Number_minus_5
  have "getUpsellVariantIdFromSection bare_host minus_trigger = Some (Fin (- 5))" by blast
  moreover have "''1.5'' \<noteq> []" by simp
  with upsell_id_coercion [where pf = bare_host and q = fraction_trigger and v = "''1.5''" and r = "3 / 2"]
    fraction_trigger_section js_Number_1_5 three_halves_fraction
  have "getUpsellVariantIdFromSection bare_host fraction_trigger = Some (Fin (3 / 2))"
    by blast
  ultimately show ?thesis by (simp add: js_Number_900)
qed

text \<open>
  Claim C6. A click on a trigger whose handle is absent or empty only raises the alert:
  no product fetch is issued and the page is unchanged. A click on the add control with
  no stored variant id issues no POST, shows the inline message and leaves the control
  enabled.
\<close>

theorem missing_input_no_network:
  "((data_handle quick = None \<or> data_handle quick = Some []) \<longrightarrow>
      on_click pf \<lparr>closest_quick = Some quick, closest_close = c\<rparr> res pg
        = (pg, [Alert ''Product handle missing'']))
   \<and> ((dataset_variantId m = None \<or> dataset_variantId m = Some []) \<longrightarrow>
      add_onclick pf p trigger res1 res2 m
        = (m\<lparr>add_disabled := False, msg_text := ''Please select variant''\<rparr>, []))"
proof (intro conjI impI)
  assume "data_handle quick = None \<or> data_handle quick = Some []"
  then show "on_click pf \<lparr>closest_quick = Some quick, closest_close = c\<rparr> res pg
        = (pg, [Alert ''Product handle missing''])"
    by (auto simp: on_click_def Let_def)
next
  assume "dataset_variantId m = None \<or> dataset_variantId m = Some []"
  then show "add_onclick pf p trigger res1 res2 m
        = (m\<lparr>add_disabled := False, msg_text := ''Please select variant''\<rparr>, [])"
    by (rule add_onclick_no_variant)
qed

theorem missing_input_no_network_witness:
  "on_click bare_host \<lparr>closest_quick = Some bare_trigger, closest_close = False\<rparr>
       (Ok_json tee) initial_page
     = (initial_page, [Alert ''Product handle missing''])
   \<and> add_onclick bare_host tee tee_trigger (Ok_json ()) (Ok_json ()) new_modal
     = (new_modal\<lparr>add_disabled := False, msg_text := ''Please select variant''\<rparr>, [])"
proof -
  have "data_handle bare_trigger = None \<or> data_handle bare_trigger = Some []"
    by (simp add: bare_trigger_def)
  moreover have "dataset_variantId new_modal = None \<or> dataset_variantId new_modal = Some []"
    by (simp add: new_modal_def)
  ultimately show ?thesis
    using missing_input_no_network [where quick = bare_trigger and pf = bare_host
        and c = False and res = "Ok_json tee" and pg = initial_page and m = new_modal
        and p = tee and trigger = tee_trigger and ?res1.0 = "Ok_json ()"
        and ?res2.0 = "Ok_json ()"]
    by blast
qed

section \<open>Failure and ordering of the cart calls\<close>

lemma response_cases:
  "(res :: unit response) = Ok_json () \<or> res = Rejected \<or> res = Status_not_ok \<or> res = Invalid_json"
  by (cases res) simp_all

text \<open>
  Claim C5. When the primary add fails (transport error, non-success status, or a
  success response whose body is not JSON), the handler sets the inline failure
  message, re-enables the add control, and has issued exactly one POST: no upsell
  POST, no second attempt, no navigation.
\<close>

theorem primary_failure_surfaced:
  "dataset_variantId m = Some vid \<and> vid \<noteq> []
     \<and> (res1 = Rejected \<or> res1 = Status_not_ok \<or> res1 = Invalid_json) \<longrightarrow>
   (let (m', effs) = add_onclick pf p quick res1 res2 m
    in m' = m\<lparr>add_disabled := False, msg_text := ''Could not add to cart. Try again.''\<rparr>
       \<and> effs = [primary_post pf vid (qty_value m), Console_error]
       \<and> cart_adds effs = [primary_post pf vid (qty_value m)]
       \<and> Navigate ''/cart'' \<notin> set effs)"
proof
  assume a: "dataset_variantId m = Some vid \<and> vid \<noteq> []
     \<and> (res1 = Rejected \<or> res1 = Status_not_ok \<or> res1 = Invalid_json)"
  then have "res1 \<noteq> Ok_json ()" by auto
  with a have "add_onclick pf p quick res1 res2 m =
      (m\<lparr>add_disabled := False, msg_text := ''Could not add to cart. Try again.''\<rparr>,
       [primary_post pf vid (qty_value m), Console_error])"
    by (simp add: add_onclick_failed)
  then show "let (m', effs) = add_onclick pf p quick res1 res2 m
    in m' = m\<lparr>add_disabled := False, msg_text := ''Could not add to cart. Try again.''\<rparr>
       \<and> effs = [primary_post pf vid (qty_value m), Console_error]
       \<and> cart_adds effs = [primary_post pf vid (qty_value m)]
       \<and> Navigate ''/cart'' \<notin> set effs"
    by (simp add: cart_adds_def primary_post_def)
qed

theorem primary_failure_surfaced_witness:
  "add_onclick bare_host tee tee_trigger Status_not_ok (Ok_json ()) tee_modal =
     (tee_modal\<lparr>add_disabled := False, msg_text := ''Could not add to cart. Try again.''\<rparr>,
      [primary_post bare_host ''102'' ''1'', Console_error])"
proof -
  have "dataset_variantId tee_modal = Some ''102'' \<and> ''102'' \<noteq> []
     \<and> (Status_not_ok = Rejected \<or> (Status_not_ok :: unit response) = Status_not_ok
          \<or> Status_not_ok = Invalid_json)"
    by (simp add: tee_modal_def)
  with primary_failure_surfaced [where m = tee_modal and vid = "''102''"
      and ?res1.0 = Status_not_ok and pf = bare_host and p = tee and quick = tee_trigger
      and ?res2.0 = "Ok_json ()"]
  show ?thesis
    by (simp add: tee_modal_def new_modal_def split: prod.splits)
qed

text \<open>
  Claim C10. The first effect of an add click with a stored variant id is a POST whose
  body holds \<^verbatim>\<open>Number\<close> of the stored id and \<^verbatim>\<open>Number\<close> of the quantity field; when
  the quantity field is empty the quantity is 1.
\<close>

theorem primary_post_numbers:
  "dataset_variantId m = Some vid \<and> vid \<noteq> [] \<longrightarrow>
     (\<exists>rest. snd (add_onclick pf p quick res1 res2 m) =
        Cart_add \<lparr>body_id = JSON_number (Number_of_string pf vid),
                  body_quantity = JSON_number (if qty_value m = [] then Fin 1
                                               else Number_of_string pf (qty_value m))\<rparr> # rest)
     \<and> (qty_value m = [] \<longrightarrow>
          (\<exists>b rest. snd (add_onclick pf p quick res1 res2 m) = Cart_add b # rest
             \<and> body_quantity b = Json_number 1))"
proof
  assume a: "dataset_variantId m = Some vid \<and> vid \<noteq> []"
  have first: "\<exists>rest. snd (add_onclick pf p quick res1 res2 m) = primary_post pf vid (qty_value m) # rest"
  proof (cases "res1 = Ok_json ()")
    case True
    with a show ?thesis by (simp add: add_onclick_ok)
  next
    case False
    with a show ?thesis by (simp add: add_onclick_failed)
  qed
  then show "(\<exists>rest. snd (add_onclick pf p quick res1 res2 m) =
        Cart_add \<lparr>body_id = JSON_number (Number_of_string pf vid),
                  body_quantity = JSON_number (if qty_value m = [] then Fin 1
                                               else Number_of_string pf (qty_value m))\<rparr> # rest)
     \<and> (qty_value m = [] \<longrightarrow>
          (\<exists>b rest. snd (add_onclick pf p quick res1 res2 m) = Cart_add b # rest
             \<and> body_quantity b = Json_number 1))"
    by (auto simp: primary_post_def)
qed

theorem primary_post_numbers_witness:
  "\<exists>rest. snd (add_onclick bare_host tee tee_trigger (Ok_json ()) (Ok_json ()) empty_qty_modal) =
     Cart_add \<lparr>body_id = Json_number 102, body_quantity = Json_number 1\<rparr> # rest"
proof -
  have "dataset_variantId empty_qty_modal = Some ''102'' \<and> ''102'' \<noteq> []"
    by (simp add: empty_qty_modal_def tee_modal_def)
  moreover have "qty_value empty_qty_modal = []"
    by (simp add: empty_qty_modal_def)
  ultimately show ?thesis
    using primary_post_numbers [where m = empty_qty_modal and vid = "''102''"
        and pf = bare_host and p = tee and quick = tee_trigger and ?res1.0 = "Ok_json ()"
        and ?res2.0 = "Ok_json ()"]
    by (simp add: js_Number_102)
qed

text \<open>
  Claim C3. An upsell POST is issued only when the primary add has succeeded, and after
  it. When the primary add has succeeded, the navigation to the cart is the last effect,
  after the one or two POSTs; a failed upsell add leaves only a console warning before
  it: no alert is raised and the modal is the same as after a successful upsell add.
\<close>

theorem upsell_after_primary:
  "dataset_variantId m = Some vid \<and> vid \<noteq> [] \<longrightarrow>
   (let (m', effs) = add_onclick pf p quick res1 res2 m
    in (res1 \<noteq> Ok_json () \<longrightarrow>
          cart_adds effs = [primary_post pf vid (qty_value m)] \<and> Navigate ''/cart'' \<notin> set effs)
       \<and> (res1 = Ok_json () \<longrightarrow>
            m' = m\<lparr>add_disabled := True, msg_text := ''Adding...''\<rparr>
            \<and> \<not> list_ex is_Alert effs
            \<and> (\<exists>between. effs = primary_post pf vid (qty_value m) # between @ [Navigate ''/cart'']
                 \<and> (between = []
                      \<or> (\<exists>u. between = [upsell_post u] \<and> res2 = Ok_json ())
                      \<or> (\<exists>u. between = [upsell_post u, Console_warn] \<and> res2 \<noteq> Ok_json ())))))"
proof
  assume a: "dataset_variantId m = Some vid \<and> vid \<noteq> []"
  show "let (m', effs) = add_onclick pf p quick res1 res2 m
    in (res1 \<noteq> Ok_json () \<longrightarrow>
          cart_adds effs = [primary_post pf vid (qty_value m)] \<and> Navigate ''/cart'' \<notin> set effs)
       \<and> (res1 = Ok_json () \<longrightarrow>
            m' = m\<lparr>add_disabled := True, msg_text := ''Adding...''\<rparr>
            \<and> \<not> list_ex is_Alert effs
            \<and> (\<exists>between. effs = primary_post pf vid (qty_value m) # between @ [Navigate ''/cart'']
                 \<and> (between = []
                      \<or> (\<exists>u. between = [upsell_post u] \<and> res2 = Ok_json ())
                      \<or> (\<exists>u. between = [upsell_post u, Console_warn] \<and> res2 \<noteq> Ok_json ()))))"
  proof (cases "res1 = Ok_json ()")
    case False
    with a show ?thesis
      by (simp add: add_onclick_failed cart_adds_def primary_post_def)
  next
    case True
    have tail: "upsell_tail pf p quick vid res2 = []
        \<or> (\<exists>u. upsell_tail pf p quick vid res2 = [upsell_post u] \<and> res2 = Ok_json ())
        \<or> (\<exists>u. upsell_tail pf p quick vid res2 = [upsell_post u, Console_warn] \<and> res2 \<noteq> Ok_json ())"
      by (cases "getUpsellVariantIdFromSection pf quick") (auto simp: upsell_tail_def)
    have no_alert: "\<not> list_ex is_Alert (upsell_tail pf p quick vid res2)"
      by (cases "getUpsellVariantIdFromSection pf quick")
         (simp_all add: upsell_tail_def upsell_post_def)
    from a True tail no_alert show ?thesis
      by (simp add: add_onclick_ok primary_post_def)
  qed
qed

theorem upsell_after_primary_witness:
  "add_onclick bare_host tee tee_trigger (Ok_json ()) Rejected tee_modal =
     (tee_modal\<lparr>add_disabled := True, msg_text := ''Adding...''\<rparr>,
      [primary_post bare_host ''102'' ''1'', upsell_post (Fin 900), Console_warn, Navigate ''/cart''])"
proof -
  have vid: "dataset_variantId tee_modal = Some ''102'' \<and> ''102'' \<noteq> []"
    by (simp add: tee_modal_def)
  have two: "cart_adds (snd (add_onclick bare_host tee tee_trigger (Ok_json ()) Rejected tee_modal)) =
     [primary_post bare_host ''102'' ''1'', upsell_post (Fin 900)]"
    using vid
    by (simp add: add_onclick_ok cart_adds_ok tee_chosen tee_values tee_upsell hasBlack_def
        hasMedium_def tee_modal_def new_modal_def)
  obtain m' effs where run: "add_onclick bare_host tee tee_trigger (Ok_json ()) Rejected tee_modal = (m', effs)"
    by (cases "add_onclick bare_host tee tee_trigger (Ok_json ()) Rejected tee_modal")
  from upsell_after_primary [where m = tee_modal and vid = "''102''" and pf = bare_host
      and p = tee and quick = tee_trigger and ?res1.0 = "Ok_json ()" and ?res2.0 = Rejected] vid run
  have m': "m' = tee_modal\<lparr>add_disabled := True, msg_text := ''Adding...''\<rparr>"
    and shape: "\<exists>between. effs = primary_post bare_host ''102'' (qty_value tee_modal) # between @ [Navigate ''/cart'']
         \<and> (between = []
              \<or> (\<exists>u. between = [upsell_post u] \<and> Rejected = (Ok_json () :: unit response))
              \<or> (\<exists>u. between = [upsell_post u, Console_warn]))"
    by simp_all
  from shape obtain between where effs: "effs = primary_post bare_host ''102'' (qty_value tee_modal) # between @ [Navigate ''/cart'']"
    and alt: "between = [] \<or> (\<exists>u. between = [upsell_post u, Console_warn])"
    by auto
  from two run effs have "cart_adds between = [upsell_post (Fin 900)]"
    by (simp add: cart_adds_def primary_post_def tee_modal_def new_modal_def)
  with alt have "between = [upsell_post (Fin 900), Console_warn]"
    by (auto simp: cart_adds_def upsell_post_def)
  with effs m' run show ?thesis
    by (simp add: tee_modal_def new_modal_def)
qed

section \<open>Modal lifecycle\<close>

lemma on_click_opens:
  assumes "data_handle quick = Some h" and "h \<noteq> []"
  shows "\<exists>m. fst (on_click pf \<lparr>closest_quick = Some quick, closest_close = c\<rparr> (Ok_json p) pg)
            = openModal m pg"
proof -
  obtain m' thrown where
    built: "buildVariantPickers pf ((ensureModal pg)\<lparr>title_text := p_title p\<rparr>) p = (m', thrown)"
    by (cases "buildVariantPickers pf ((ensureModal pg)\<lparr>title_text := p_title p\<rparr>) p")
  then have "thrown = None" by (rule buildVariantPickers_result(2))
  with built assms
  have "fst (on_click pf \<lparr>closest_quick = Some quick, closest_close = c\<rparr> (Ok_json p) pg)
          = openModal (m'\<lparr>add_handler := Some (p, quick)\<rparr>) pg"
    by (simp add: on_click_def Let_def)
  then show ?thesis by blast
qed

text \<open>
  Claim C8. Escape on an open modal closes it and removes the scroll lock; Escape with
  the modal closed, or not yet created, leaves the page as it is. A successful open
  leaves the modal open with the scroll lock set; a click on a close control or on the
  backdrop leaves it closed with the lock removed. In every page reached from the
  initial page by any sequence of events, the scroll lock is set exactly when the modal
  is open.
\<close>

theorem modal_scroll_lock:
  "(quickview pg = Some m \<and> is_open m \<longrightarrow>
      on_keydown ''Escape'' pg = pg\<lparr>quickview := Some (m\<lparr>is_open := False\<rparr>), no_scroll := False\<rparr>)
   \<and> (\<not> modal_is_open pg \<longrightarrow> on_keydown ''Escape'' pg = pg)
   \<and> (data_handle quick = Some h \<and> h \<noteq> [] \<longrightarrow>
        (let pg' = fst (on_click pf \<lparr>closest_quick = Some quick, closest_close = c\<rparr> (Ok_json p) pg)
         in modal_is_open pg' \<and> no_scroll pg'))
   \<and> (quickview pg = Some m \<longrightarrow>
        (let pg' = fst (on_click pf \<lparr>closest_quick = None, closest_close = True\<rparr> res pg)
         in \<not> modal_is_open pg' \<and> \<not> no_scroll pg'))
   \<and> no_scroll (run pf initial_page evs) = modal_is_open (run pf initial_page evs)"
proof (intro conjI impI)
  assume "quickview pg = Some m \<and> is_open m"
  then show "on_keydown ''Escape'' pg
      = pg\<lparr>quickview := Some (m\<lparr>is_open := False\<rparr>), no_scroll := False\<rparr>"
    by (simp add: on_keydown_def closeModal_def)
next
  assume "\<not> modal_is_open pg"
  then show "on_keydown ''Escape'' pg = pg"
    by (simp add: on_keydown_def modal_is_open_def split: option.splits)
next
  assume "data_handle quick = Some h \<and> h \<noteq> []"
  then obtain m' where
    "fst (on_click pf \<lparr>closest_quick = Some quick, closest_close = c\<rparr> (Ok_json p) pg)
       = openModal m' pg"
    using on_click_opens by blast
  then show "let pg' = fst (on_click pf \<lparr>closest_quick = Some quick, closest_close = c\<rparr> (Ok_json p) pg)
         in modal_is_open pg' \<and> no_scroll pg'"
    by (simp add: openModal_def modal_is_open_def)
next
  assume "quickview pg = Some m"
  then show "let pg' = fst (on_click pf \<lparr>closest_quick = None, closest_close = True\<rparr> res pg)
         in \<not> modal_is_open pg' \<and> \<not> no_scroll pg'"
    by (simp add: on_click_def closeModal_def modal_is_open_def)
next
  have "lock_inv initial_page"
    by (simp add: lock_inv_def initial_page_def modal_is_open_def)
  then have "lock_inv (run pf initial_page evs)" by (rule run_inv)
  then show "no_scroll (run pf initial_page evs) = modal_is_open (run pf initial_page evs)"
    by (simp add: lock_inv_def)
qed

theorem modal_scroll_lock_witness:
  "on_keydown ''Escape'' open_page = \<lparr>quickview = Some new_modal, no_scroll = False\<rparr>
   \<and> on_keydown ''Escape'' initial_page = initial_page
   \<and> modal_is_open (fst (on_click bare_host \<lparr>closest_quick = Some tee_trigger, closest_close = False\<rparr>
        (Ok_json tee) initial_page))
   \<and> \<not> no_scroll (fst (on_click bare_host \<lparr>closest_quick = None, closest_close = True\<rparr>
        Rejected open_page))"
proof -
  have o: "quickview open_page = Some (new_modal\<lparr>is_open := True\<rparr>)
      \<and> is_open (new_modal\<lparr>is_open := True\<rparr>)"
    by (simp add: open_page_def)
  have i: "\<not> modal_is_open initial_page"
    by (simp add: modal_is_open_def initial_page_def)
  have h: "data_handle tee_trigger = Some ''tee'' \<and> ''tee'' \<noteq> []"
    by (simp add: tee_trigger_def)
  from modal_scroll_lock [where pg = open_page and m = "new_modal\<lparr>is_open := True\<rparr>"
      and quick = tee_trigger and h = "''tee''" and pf = bare_host and c = False and p = tee
      and res = Rejected and evs = "[]"] o
  have 1: "on_keydown ''Escape'' open_page = \<lparr>quickview = Some new_modal, no_scroll = False\<rparr>"
    and 4: "\<not> no_scroll (fst (on_click bare_host \<lparr>closest_quick = None, closest_close = True\<rparr>
        Rejected open_page))"
    by (simp_all add: open_page_def new_modal_def Let_def)
  from modal_scroll_lock [where pg = initial_page and m = new_modal
      and quick = tee_trigger and h = "''tee''" and pf = bare_host and c = False and p = tee
      and res = Rejected and evs = "[]"] i h
  have 2: "on_keydown ''Escape'' initial_page = initial_page"
    and 3: "modal_is_open (fst (on_click bare_host
        \<lparr>closest_quick = Some tee_trigger, closest_close = False\<rparr> (Ok_json tee) initial_page))"
    by (simp_all add: Let_def)
  from 1 2 3 4 show ?thesis by simp
qed

section \<open>Fallback of the money formatter\<close>

lemma dec_digits_small: "n < 10 \<Longrightarrow> dec_digits n = [digit_char n]"
  by (simp add: dec_digits.simps)

lemma dec_digits_step: "10 \<le> n \<Longrightarrow> dec_digits n = dec_digits (n div 10) @ [digit_char (n mod 10)]"
  by (subst dec_digits.simps) simp

lemma dec_digits_nonempty: "dec_digits n \<noteq> []"
  by (subst dec_digits.simps) simp

lemma digit_char_0: "digit_char 0 = CHR ''0''"
  by (simp add: digit_char_def)

lemma fixed_digits_two:
  assumes n: "nat \<lfloor>x * 10 ^ 2 + 1 / 2\<rfloor> = n"
  shows "fixed_digits x 2 =
     dec_digits (n div 100) @ ''.'' @ [digit_char (n div 10 mod 10), digit_char (n mod 10)]"
proof -
  consider "n < 10" | "10 \<le> n" "n < 100" | "100 \<le> n" by linarith
  then show ?thesis
  proof cases
    case 1
    then show ?thesis
      unfolding fixed_digits_def n
      by (simp add: dec_digits_small Let_def digit_char_0 numeral_3_eq_3)
  next
    case 2
    then have d: "dec_digits n = [digit_char (n div 10), digit_char (n mod 10)]"
      by (simp add: dec_digits_step dec_digits_small)
    from 2 have "n div 100 = 0" by simp
    then show ?thesis
      unfolding fixed_digits_def n
      by (simp add: d dec_digits_small Let_def digit_char_0)
  next
    case 3
    then have "10 \<le> n div 10" by simp
    moreover have "n div 10 div 10 = n div 100"
      by (simp add: div_mult2_eq [symmetric])
    ultimately have d: "dec_digits n =
        dec_digits (n div 100) @ [digit_char (n div 10 mod 10), digit_char (n mod 10)]"
      using 3 by (simp add: dec_digits_step [of n] dec_digits_step [of "n div 10"])
    have "0 < length (dec_digits (n div 100))"
      using dec_digits_nonempty by simp
    then show ?thesis
      unfolding fixed_digits_def n
      by (simp add: d Let_def)
  qed
qed

text \<open>
  A number within the relative distance \<open>2^-53\<close> of \<open>cents / 100\<close>, as the nearest
  double is, has the two decimals of \<open>cents / 100\<close> as long as \<open>cents\<close> is below
  \<open>2^52\<close> in magnitude.
\<close>

lemma toFixed_near:
  assumes near: "\<bar>x - of_int cents / 100\<bar> \<le> \<bar>of_int cents / 100\<bar> / 2 ^ 53"
    and bound: "\<bar>cents\<bar> < 2 ^ 52"
  shows "toFixed pf (Fin x) 2 = Inr (two_decimals cents)"
proof -
  define a :: rat where "a = of_int cents / 100"
  have c52: "(of_int \<bar>cents\<bar> :: rat) < 2 ^ 52"
    using bound by (metis of_int_less_iff of_int_numeral of_int_power)
  have abs_a: "\<bar>a\<bar> = of_int \<bar>cents\<bar> / 100"
    by (simp add: a_def)
  have "\<bar>a\<bar> / 2 ^ 53 < 1 / 200"
    unfolding abs_a using c52 by simp
  with near have d: "\<bar>x - a\<bar> < 1 / 200"
    by (simp add: a_def)
  have "\<bar>\<bar>x\<bar> - \<bar>a\<bar>\<bar> \<le> \<bar>x - a\<bar>"
    by (rule abs_triangle_ineq3)
  with d have dd: "\<bar>\<bar>x\<bar> - \<bar>a\<bar>\<bar> < 1 / 200"
    by linarith
  have c: "(of_int \<bar>cents\<bar> :: rat) = \<bar>a\<bar> * 100"
    by (simp add: abs_a)
  from dd have below: "\<bar>a\<bar> - 1 / 200 < \<bar>x\<bar>" and above: "\<bar>x\<bar> < \<bar>a\<bar> + 1 / 200"
    by linarith+
  have lo: "of_int \<bar>cents\<bar> \<le> \<bar>x\<bar> * 10 ^ 2 + 1 / 2"
    unfolding c using below by simp
  have hi: "\<bar>x\<bar> * 10 ^ 2 + 1 / 2 < of_int \<bar>cents\<bar> + 1"
    unfolding c using above by simp
  from lo hi have "\<lfloor>\<bar>x\<bar> * 10 ^ 2 + 1 / 2\<rfloor> = \<bar>cents\<bar>"
    by (simp add: floor_eq_iff)
  then have n: "nat \<lfloor>\<bar>x\<bar> * 10 ^ 2 + 1 / 2\<rfloor> = nat \<bar>cents\<bar>"
    by simp
  have "\<bar>a\<bar> + 1 / 200 < (10 ^ 21 :: rat)"
    unfolding abs_a using c52 by simp
  with above have small: "\<not> (10 ^ 21 \<le> \<bar>x\<bar>)"
    by linarith
  have neg: "(x < 0) = (cents < 0)"
  proof (cases "cents = 0")
    case True
    with near show ?thesis by simp
  next
    case False
    have "\<bar>a\<bar> / 2 ^ 53 < \<bar>a\<bar>"
      using False by (simp add: a_def)
    with near have "\<bar>x - a\<bar> < \<bar>a\<bar>"
      by (simp add: a_def)
    moreover have "(a < 0) = (cents < 0)"
      by (simp add: a_def)
    ultimately show ?thesis by linarith
  qed
  have "toFixed pf (Fin x) 2 = Inr ((if x < 0 then ''-'' else []) @ fixed_digits \<bar>x\<bar> (nat 2))"
    using small by (simp add: toFixed_def)
  then show ?thesis
    unfolding neg two_decimals_def using fixed_digits_two [OF n] by simp
qed

lemma two_decimals_1999: "two_decimals 1999 = ''19.99''"
  by (simp add: two_decimals_def dec_digits_step dec_digits_small digit_char_def)

lemma formatMoney_fallback:
  assumes "intl_format pf (active_currency pf) (hundredth pf cents) = Inl e"
  shows "formatMoney pf cents = toFixed pf (hundredth pf cents) 2"
  using assms by (simp add: formatMoney_def)

lemma formatMoney_formatted:
  assumes "intl_format pf (active_currency pf) (hundredth pf cents) = Inr s"
  shows "formatMoney pf cents = Inr s"
  using assms by (simp add: formatMoney_def)

text \<open>
  Claim C7. For every integer amount the formatter returns a string and throws nothing.
  When the locale formatter returns a string, that string is the result. When the
  locale formatter throws, the result is \<^verbatim>\<open>(cents / 100).toFixed(2)\<close>; where the
  number \<^verbatim>\<open>cents / 100\<close> is within the relative distance \<open>2^-53\<close> of the exact
  quotient, as the nearest double is, and the amount is below \<open>2^52\<close> in magnitude,
  that is the amount divided by 100 written with two decimals; for 1999 it is "19.99".
\<close>

theorem formatMoney_never_throws:
  "(\<exists>s. formatMoney pf cents = Inr s)
   \<and> (intl_format pf (active_currency pf) (hundredth pf cents) = Inr s \<longrightarrow>
        formatMoney pf cents = Inr s)
   \<and> ((\<exists>e. intl_format pf (active_currency pf) (hundredth pf cents) = Inl e) \<longrightarrow>
        formatMoney pf cents = toFixed pf (hundredth pf cents) 2
        \<and> (hundredth pf cents = Fin x
             \<and> \<bar>x - of_int cents / 100\<bar> \<le> \<bar>of_int cents / 100\<bar> / 2 ^ 53
             \<and> \<bar>cents\<bar> < 2 ^ 52 \<longrightarrow>
             formatMoney pf cents = Inr (two_decimals cents)))
   \<and> ((\<exists>e. intl_format pf (active_currency pf) (hundredth pf 1999) = Inl e)
        \<and> hundredth pf 1999 = Fin y
        \<and> \<bar>y - 1999 / 100\<bar> \<le> 1999 / 100 / 2 ^ 53 \<longrightarrow>
        formatMoney pf 1999 = Inr ''19.99'')"
proof (intro conjI impI)
  show "\<exists>s. formatMoney pf cents = Inr s"
    by (rule formatMoney_returns)
next
  assume "intl_format pf (active_currency pf) (hundredth pf cents) = Inr s"
  then show "formatMoney pf cents = Inr s"
    by (rule formatMoney_formatted)
next
  assume "\<exists>e. intl_format pf (active_currency pf) (hundredth pf cents) = Inl e"
  then show "formatMoney pf cents = toFixed pf (hundredth pf cents) 2"
    using formatMoney_fallback by blast
next
  assume "\<exists>e. intl_format pf (active_currency pf) (hundredth pf cents) = Inl e"
    and near: "hundredth pf cents = Fin x
             \<and> \<bar>x - of_int cents / 100\<bar> \<le> \<bar>of_int cents / 100\<bar> / 2 ^ 53
             \<and> \<bar>cents\<bar> < 2 ^ 52"
  then have "formatMoney pf cents = toFixed pf (Fin x) 2"
    using formatMoney_fallback by fastforce
  also have "\<dots> = Inr (two_decimals cents)"
    using near by (simp add: toFixed_near)
  finally show "formatMoney pf cents = Inr (two_decimals cents)" .
next
  assume a: "(\<exists>e. intl_format pf (active_currency pf) (hundredth pf 1999) = Inl e)
        \<and> hundredth pf 1999 = Fin y
        \<and> \<bar>y - 1999 / 100\<bar> \<le> 1999 / 100 / 2 ^ 53"
  then have "formatMoney pf 1999 = toFixed pf (Fin y) 2"
    using formatMoney_fallback by fastforce
  also have "\<dots> = Inr (two_decimals 1999)"
    using a by (intro toFixed_near) simp_all
  finally show "formatMoney pf 1999 = Inr ''19.99''"
    by (simp add: two_decimals_1999)
qed

lemma bare_hundredth_1999:
  "hundredth bare_host 1999 = Fin (5626684784446013 / 281474976710656)"
  by code_simp

lemma bare_hundredth_minus_5:
  "hundredth bare_host (- 5) = Fin (- (3602879701896397 / 72057594037927936))"
  by code_simp

lemma bare_intl_fails:
  "intl_format bare_host (active_currency bare_host) x = Inl TypeError"
  by (simp add: bare_host_def active_currency_def)

lemma shop_intl_1999:
  "intl_format shop_host (active_currency shop_host) (hundredth shop_host 1999)
     = Inr ''USD 19.99''"
  by code_simp

theorem formatMoney_never_throws_witness:
  "formatMoney bare_host 1999 = Inr ''19.99''
   \<and> formatMoney bare_host (- 5) = Inr ''-0.05''
   \<and> formatMoney shop_host 1999 = Inr ''USD 19.99''"
proof -
  have near: "\<bar>(5626684784446013 / 281474976710656 :: rat) - 1999 / 100\<bar>
      \<le> 1999 / 100 / 2 ^ 53"
    by simp
  have near5: "\<bar>(- (3602879701896397 / 72057594037927936) :: rat) - of_int (- 5) / 100\<bar>
      \<le> \<bar>of_int (- 5) / 100\<bar> / 2 ^ 53 \<and> \<bar>- 5 :: int\<bar> < 2 ^ 52"
    by simp
  have five: "two_decimals (- 5) = ''-0.05''"
    by (simp add: two_decimals_def dec_digits_small digit_char_def)
  from formatMoney_never_throws [where pf = bare_host and cents = 1999
      and y = "5626684784446013 / 281474976710656"]
    bare_intl_fails bare_hundredth_1999 near
  have 1: "formatMoney bare_host 1999 = Inr ''19.99''" by blast
  from formatMoney_never_throws [where pf = bare_host and cents = "- 5"
      and x = "- (3602879701896397 / 72057594037927936)"]
    bare_intl_fails bare_hundredth_minus_5 near5 five
  have 2: "formatMoney bare_host (- 5) = Inr ''-0.05''" by metis
  from formatMoney_never_throws [where pf = shop_host and cents = 1999
      and s = "''USD 19.99''"] shop_intl_1999
  have 3: "formatMoney shop_host 1999 = Inr ''USD 19.99''" by blast
  from 1 2 3 show ?thesis by simp
qed

section \<open>Pre-seeding agrees with clicking through\<close>


































lemma tee_seeded:
  "dataset_variantId (seeded bare_host new_modal tee) = Some ''102''
   \<and> price_text (seeded bare_host new_modal tee) = ''19.99''
   \<and> title_text (seeded bare_host new_modal tee) = ''Tee'' @ dash_separator @ ''Black / Medium''
   \<and> aria_pressed (seeded bare_host new_modal tee) = [True, False, False, True]"
  by code_simp

text \<open>
  Products outside the data invariant, for which the two states differ: no option, two
  variants with one option tuple, a repeated option name, an option named
  \<^verbatim>\<open>__proto__\<close>.
\<close>

lemma hat_differs:
  "dataset_variantId (seeded bare_host new_modal hat) = Some ''301''
   \<and> dataset_variantId (clicked_through bare_host new_modal hat) = None"
  by code_simp

lemma twin_differs:
  "dataset_variantId (seeded bare_host new_modal twin) = Some ''402''
   \<and> dataset_variantId (clicked_through bare_host new_modal twin) = Some ''401''"
  by code_simp

lemma sizes_differs:
  "dataset_variantId (seeded bare_host new_modal sizes) = Some ''501''
   \<and> dataset_variantId (clicked_through bare_host new_modal sizes) = None"
  by code_simp

lemma belt_differs:
  "dataset_variantId (seeded bare_host new_modal belt) = Some ''701''
   \<and> dataset_variantId (clicked_through bare_host new_modal belt) = None"
  by code_simp






end
